theory Spec2Isabelle
  imports Complex_Main
begin

section \<open>JavaScript numbers\<close>

text \<open>
  A JavaScript number is an IEEE 754 double: a finite value, one of the two infinities,
  or \<open>NaN\<close>. A finite double is modelled by the real number it denotes (the sign of
  zero is not modelled: no result below depends on it). The numbers that enter from
  outside (offered sizes, measured text sizes) are finite doubles; every arithmetic
  operation on them rounds its exact result to the nearest double.
\<close>

datatype jsnum = Num real | PosInf | NegInf | NaN

text \<open>
  Rounding to nearest, ties to even. The doubles around a real \<open>x \<noteq> 0\<close> are the
  integer multiples of \<open>2 ^ k\<close>, where \<open>k\<close> is the exponent of \<open>x\<close> less the 52
  fraction bits of the format, and at least \<open>-1074\<close> (the subnormal range). The exact
  result is rounded to the nearest multiple, a tie to the even multiple; a rounded
  result of magnitude \<open>2 ^ 1024\<close> or more overflows to an infinity.
\<close>

definition round_half_even :: "real \<Rightarrow> int" where
  "round_half_even y =
     (let f = \<lfloor>y\<rfloor>
      in if y - of_int f < 1 / 2 then f
         else if y - of_int f > 1 / 2 then f + 1
         else if even f then f else f + 1)"

definition ulp_exponent :: "real \<Rightarrow> int" where
  "ulp_exponent x = max (\<lfloor>log 2 \<bar>x\<bar>\<rfloor> - 52) (- 1074)"

definition overflow_threshold :: real where
  "overflow_threshold = 2 powi 1024"

definition rnd :: "real \<Rightarrow> jsnum" where
  "rnd x =
     (if x = 0 then Num 0
      else let k = ulp_exponent x;
               r = of_int (round_half_even (x / 2 powi k)) * 2 powi k
           in if r \<ge> overflow_threshold then PosInf
              else if r \<le> - overflow_threshold then NegInf
              else Num r)"

text \<open>\<open>a > b\<close>, \<open>a < b\<close> and \<open>a <= b\<close>: false as soon as one side is \<open>NaN\<close>.\<close>

fun js_gt :: "jsnum \<Rightarrow> jsnum \<Rightarrow> bool" where
  "js_gt NaN b = False"
| "js_gt a NaN = False"
| "js_gt (Num a) (Num b) = (a > b)"
| "js_gt (Num a) PosInf = False"
| "js_gt (Num a) NegInf = True"
| "js_gt PosInf PosInf = False"
| "js_gt PosInf b = True"
| "js_gt NegInf b = False"

definition js_lt :: "jsnum \<Rightarrow> jsnum \<Rightarrow> bool" where
  "js_lt a b = js_gt b a"

fun js_le :: "jsnum \<Rightarrow> jsnum \<Rightarrow> bool" where
  "js_le NaN b = False"
| "js_le a NaN = False"
| "js_le (Num a) (Num b) = (a \<le> b)"
| "js_le NegInf b = True"
| "js_le a PosInf = True"
| "js_le PosInf b = False"
| "js_le a NegInf = False"

text \<open>\<open>a - b\<close>.\<close>

fun js_sub :: "jsnum \<Rightarrow> jsnum \<Rightarrow> jsnum" where
  "js_sub NaN b = NaN"
| "js_sub a NaN = NaN"
| "js_sub (Num a) (Num b) = rnd (a - b)"
| "js_sub (Num a) PosInf = NegInf"
| "js_sub (Num a) NegInf = PosInf"
| "js_sub PosInf PosInf = NaN"
| "js_sub PosInf b = PosInf"
| "js_sub NegInf NegInf = NaN"
| "js_sub NegInf b = NegInf"

text \<open>\<open>a + b\<close>.\<close>

fun js_add :: "jsnum \<Rightarrow> jsnum \<Rightarrow> jsnum" where
  "js_add NaN b = NaN"
| "js_add a NaN = NaN"
| "js_add (Num a) (Num b) = rnd (a + b)"
| "js_add (Num a) PosInf = PosInf"
| "js_add (Num a) NegInf = NegInf"
| "js_add PosInf NegInf = NaN"
| "js_add PosInf b = PosInf"
| "js_add NegInf PosInf = NaN"
| "js_add NegInf b = NegInf"

text \<open>The sign of a product with an infinity; \<open>Infinity * 0\<close> is \<open>NaN\<close>.\<close>

definition js_signed_inf :: "real \<Rightarrow> jsnum" where
  "js_signed_inf s = (if s > 0 then PosInf else if s < 0 then NegInf else NaN)"

text \<open>\<open>a * b\<close>.\<close>

fun js_mul :: "jsnum \<Rightarrow> jsnum \<Rightarrow> jsnum" where
  "js_mul NaN b = NaN"
| "js_mul a NaN = NaN"
| "js_mul (Num a) (Num b) = rnd (a * b)"
| "js_mul (Num a) PosInf = js_signed_inf a"
| "js_mul (Num a) NegInf = js_signed_inf (- a)"
| "js_mul PosInf (Num b) = js_signed_inf b"
| "js_mul NegInf (Num b) = js_signed_inf (- b)"
| "js_mul PosInf PosInf = PosInf"
| "js_mul PosInf NegInf = NegInf"
| "js_mul NegInf PosInf = NegInf"
| "js_mul NegInf NegInf = PosInf"

text \<open>
  \<open>a / b\<close>. A finite number divided by 0 is an infinity of the sign of the dividend, and
  \<open>0 / 0\<close> is \<open>NaN\<close> (the divisor 0 is taken as \<open>+0\<close>).
\<close>

fun js_div :: "jsnum \<Rightarrow> jsnum \<Rightarrow> jsnum" where
  "js_div NaN b = NaN"
| "js_div a NaN = NaN"
| "js_div (Num a) (Num b) = (if b = 0 then js_signed_inf a else rnd (a / b))"
| "js_div (Num a) PosInf = Num 0"
| "js_div (Num a) NegInf = Num 0"
| "js_div PosInf (Num b) = (if b < 0 then NegInf else PosInf)"
| "js_div NegInf (Num b) = (if b < 0 then PosInf else NegInf)"
| "js_div PosInf b = NaN"
| "js_div NegInf b = NaN"

text \<open>\<open>Math.floor\<close> (exact: the floor of a double is a double).\<close>

fun js_floor :: "jsnum \<Rightarrow> jsnum" where
  "js_floor (Num a) = Num (of_int \<lfloor>a\<rfloor>)"
| "js_floor a = a"

text \<open>\<open>Math.min\<close> and \<open>Math.max\<close> of two arguments (exact).\<close>

fun js_min :: "jsnum \<Rightarrow> jsnum \<Rightarrow> jsnum" where
  "js_min NaN b = NaN"
| "js_min a NaN = NaN"
| "js_min NegInf b = NegInf"
| "js_min a NegInf = NegInf"
| "js_min PosInf b = b"
| "js_min a PosInf = a"
| "js_min (Num a) (Num b) = Num (min a b)"

fun js_max :: "jsnum \<Rightarrow> jsnum \<Rightarrow> jsnum" where
  "js_max NaN b = NaN"
| "js_max a NaN = NaN"
| "js_max PosInf b = PosInf"
| "js_max a PosInf = PosInf"
| "js_max NegInf b = b"
| "js_max a NegInf = a"
| "js_max (Num a) (Num b) = Num (max a b)"

section \<open>Plain objects used as dictionaries, forEach, d3.sum and d3.max\<close>

text \<open>
  \<open>entryLengths\<close> is a plain object \<open>{}\<close> whose keys are the entries. Its own
  properties are a map from strings to numbers. One key is not an own property: on a
  plain object \<open>__proto__\<close> is an accessor inherited from \<open>Object.prototype\<close>, so
  that \<open>obj['__proto__'] = v\<close> with a number \<open>v\<close> stores nothing, and
  \<open>obj['__proto__']\<close> reads the prototype object, whatever was assigned. \<open>js_get\<close>
  is the numeric own property under a key, if there is one; \<open>js_lookup\<close> is the value
  read under a key, as a number: what is not a number there (\<open>undefined\<close>, the
  prototype object, an inherited method) counts as \<open>NaN\<close> in arithmetic and comparison.
\<close>

definition js_put :: "(string \<rightharpoonup> jsnum) \<Rightarrow> string \<Rightarrow> jsnum \<Rightarrow> (string \<rightharpoonup> jsnum)" where
  "js_put obj key v = (if key = ''__proto__'' then obj else obj(key \<mapsto> v))"

definition js_get :: "(string \<rightharpoonup> jsnum) \<Rightarrow> string \<Rightarrow> jsnum option" where
  "js_get obj key = (if key = ''__proto__'' then None else obj key)"

definition js_lookup :: "(string \<rightharpoonup> jsnum) \<Rightarrow> string \<Rightarrow> jsnum" where
  "js_lookup obj key = (case js_get obj key of None \<Rightarrow> NaN | Some v \<Rightarrow> v)"

text \<open>
  \<open>Array.prototype.forEach\<close> with a callback that updates the enclosing state: the
  callback is run on each element, first to last, and the state is handed on.
\<close>

fun forEach :: "'a list \<Rightarrow> ('a \<Rightarrow> 's \<Rightarrow> 's) \<Rightarrow> 's \<Rightarrow> 's" where
  "forEach [] f s = s"
| "forEach (e # es) f s = forEach es f (f e s)"

text \<open>
  \<open>d3.sum(array, f)\<close> starts at 0 and adds, first to last, every accessor value that
  is not \<open>NaN\<close> as a number. \<open>d3.max(array)\<close> is the largest element that is not
  \<open>NaN\<close>, and \<open>undefined\<close> (\<open>None\<close>) when there is none.
\<close>

definition d3_sum :: "'a list \<Rightarrow> ('a \<Rightarrow> jsnum) \<Rightarrow> jsnum" where
  "d3_sum array f = forEach array (\<lambda>d s. if f d = NaN then s else js_add s (f d)) (Num 0)"

fun d3_max :: "jsnum list \<Rightarrow> jsnum option" where
  "d3_max [] = None"
| "d3_max (a # as) =
     (if a = NaN then d3_max as
      else case d3_max as of None \<Rightarrow> Some a | Some m \<Rightarrow> Some (if js_gt m a then m else a))"

section \<open>HorizontalLegend (src/components/horizontalLegend.ts)\<close>

text \<open>
  The result of the text measurer (finite doubles), and the space request that
  \<open>_requestedSpace\<close> returns.
\<close>

record dimensions =
  width :: real
  height :: real

record ISpaceRequest =
  width :: jsnum
  height :: jsnum
  wantsWidth :: bool
  wantsHeight :: bool

datatype error = TypeError

text \<open>
  The private field \<open>padding\<close> is initialised to 5 and never assigned again; it is a
  constant. The other fields make up the state. The color scale is seen through
  \<open>scale.domain()\<close> only, so the field \<open>scale_domain\<close> holds the domain list.
  \<open>rows\<close> is declared without an initialiser: it is \<open>undefined\<close> (\<open>None\<close>)
  until \<open>packRows\<close> has run. \<open>previousOfferedWidth\<close> is \<open>undefined\<close> or
  \<open>null\<close> (\<open>None\<close>) or a number.
\<close>

definition padding :: real where
  "padding = 5"

record legend =
  scale_domain :: "string list"
  textHeight :: real
  entryLengths :: "string \<rightharpoonup> jsnum"
  rows :: "string list list option"
  previousOfferedWidth :: "real option"
  numRowsToDraw :: jsnum

definition HorizontalLegend :: "string list \<Rightarrow> legend" where
  "HorizontalLegend colorScale =
     \<lparr> scale_domain = colorScale, textHeight = 0, entryLengths = Map.empty,
       rows = None, previousOfferedWidth = None, numRowsToDraw = Num 0 \<rparr>"

definition invalidateLayout :: "legend \<Rightarrow> legend" where
  "invalidateLayout l = l\<lparr> previousOfferedWidth := None \<rparr>"

definition updateDomain :: "legend \<Rightarrow> legend" where
  "updateDomain l = invalidateLayout l"

subsection \<open>packRows\<close>

text \<open>
  The loop of \<open>packRows\<close> works on three variables: \<open>this.rows\<close>, \<open>currentRow\<close>
  and \<open>spaceLeft\<close>. \<open>currentRow\<close> is a reference to one of the arrays held in
  \<open>this.rows\<close>; it is modelled by the index of that array, so that
  \<open>currentRow.push(e)\<close> is an update of \<open>this.rows\<close> at that index.
\<close>

type_synonym packState = "string list list \<times> nat \<times> jsnum"

definition packRows_body :: "(string \<rightharpoonup> jsnum) \<Rightarrow> jsnum \<Rightarrow> string \<Rightarrow> packState \<Rightarrow> packState" where
  "packRows_body lengths availableWidth e st =
     (case st of (rs, currentRow, spaceLeft) \<Rightarrow>
        let entryLength = js_lookup lengths e;
            (rs1, currentRow1, spaceLeft1) =
              (if js_gt entryLength spaceLeft
               then (rs @ [[]], length rs, availableWidth)
               else (rs, currentRow, spaceLeft))
        in (rs1[currentRow1 := rs1 ! currentRow1 @ [e]], currentRow1,
            js_sub spaceLeft1 entryLength))"

definition packRows_loop :: "(string \<rightharpoonup> jsnum) \<Rightarrow> jsnum \<Rightarrow> string list \<Rightarrow> packState" where
  "packRows_loop lengths availableWidth entries =
     forEach entries (packRows_body lengths availableWidth) ([[]], 0, availableWidth)"

definition packRows :: "jsnum \<Rightarrow> legend \<Rightarrow> legend" where
  "packRows availableWidth l =
     l\<lparr> rows := Some (fst (packRows_loop (entryLengths l) availableWidth (scale_domain l))) \<rparr>"

subsection \<open>sizeEntries\<close>

text \<open>
  The text measurer (\<open>Util.Text.getTextMeasurer\<close> on a DOM node) and the string
  \<open>Util.Text.HEIGHT_TEXT\<close> are not part of these sources; they are the parameters
  \<open>measureText\<close> (the local \<open>measure\<close> of the source) and \<open>HEIGHT_TEXT\<close>.
\<close>

definition sizeEntries_body :: "(string \<Rightarrow> dimensions) \<Rightarrow> jsnum \<Rightarrow> string \<Rightarrow> legend \<Rightarrow> legend" where
  "sizeEntries_body measureText availableWidth e l =
     (let textLength = dimensions.width (measureText e)
      in l\<lparr> entryLengths := js_put (entryLengths l) e
              (js_min (js_add (js_add (Num (textHeight l)) (Num textLength)) (Num padding))
                      availableWidth) \<rparr>)"

definition sizeEntries :: "(string \<Rightarrow> dimensions) \<Rightarrow> string \<Rightarrow> jsnum \<Rightarrow> legend \<Rightarrow> legend" where
  "sizeEntries measureText HEIGHT_TEXT availableWidth l =
     (let l1 = l\<lparr> textHeight := dimensions.height (measureText HEIGHT_TEXT) \<rparr>;
          entries = scale_domain l1;
          l2 = l1\<lparr> entryLengths := Map.empty \<rparr>;
          l3 = forEach entries (sizeEntries_body measureText availableWidth) l2
      in packRows availableWidth l3)"

subsection \<open>_requestedSpace\<close>

text \<open>The length of one row, as the callback of \<open>this.rows.map\<close> computes it.\<close>

definition rowLength :: "legend \<Rightarrow> string list \<Rightarrow> jsnum" where
  "rowLength l row = d3_sum row (\<lambda>entry. js_lookup (entryLengths l) entry)"

definition requestedSpace ::
  "(string \<Rightarrow> dimensions) \<Rightarrow> string \<Rightarrow> real \<Rightarrow> real \<Rightarrow> legend \<Rightarrow> error + (ISpaceRequest \<times> legend)" where
  "requestedSpace measureText HEIGHT_TEXT offeredWidth offeredHeight l =
     (let l1 = (if Some offeredWidth \<noteq> previousOfferedWidth l
                then (let availableWidthForEntries =
                            js_max (Num 0) (js_sub (Num offeredWidth) (Num padding))
                      in (sizeEntries measureText HEIGHT_TEXT availableWidthForEntries l)
                           \<lparr> previousOfferedWidth := Some offeredWidth \<rparr>)
                else l)
      in case rows l1 of
           None \<Rightarrow> Inl TypeError
         | Some rs \<Rightarrow>
            (let rowLengths = map (rowLength l1) rs;
                 longestRowLength = (case d3_max rowLengths of None \<Rightarrow> Num 0 | Some m \<Rightarrow> m);
                 desiredWidth = js_add (Num padding) longestRowLength;
                 rowsAvailable0 =
                   js_floor (js_div (js_sub (Num offeredHeight) (js_mul (Num 2) (Num padding)))
                                    (Num (textHeight l1)));
                 rowsAvailable = (if rowsAvailable0 = NaN then Num 0 else rowsAvailable0);
                 l2 = l1\<lparr> numRowsToDraw := js_min rowsAvailable (Num (real (length rs))) \<rparr>;
                 acceptableHeight =
                   js_add (js_mul (numRowsToDraw l2) (Num (textHeight l2)))
                          (js_mul (Num 2) (Num padding));
                 desiredHeight =
                   js_add (js_mul (Num (real (length rs))) (Num (textHeight l2)))
                          (js_mul (Num 2) (Num padding))
             in Inr (\<lparr> width = desiredWidth, height = acceptableHeight,
                       wantsWidth = js_lt (Num offeredWidth) desiredWidth,
                       wantsHeight = js_lt (Num offeredHeight) desiredHeight \<rparr>, l2)))"

subsection \<open>The single pass, as the specification words it\<close>

text \<open>
  The specification describes \<open>packRows\<close> as a single pass over the domain. Two
  definitions follow its words, to be compared with \<open>packRows\<close> above: the pass
  written as one \<open>fold\<close> over the domain list, and the loop of the source run with a
  log to which every call of the loop body appends the entry it was called on.
\<close>

definition packRows_fold :: "jsnum \<Rightarrow> legend \<Rightarrow> legend" where
  "packRows_fold availableWidth l =
     l\<lparr> rows := Some (fst (fold (packRows_body (entryLengths l) availableWidth)
                               (scale_domain l) ([[]], 0, availableWidth))) \<rparr>"

definition packRows_traced ::
  "(string \<rightharpoonup> jsnum) \<Rightarrow> jsnum \<Rightarrow> string list \<Rightarrow> packState \<times> string list" where
  "packRows_traced lengths availableWidth entries =
     forEach entries
       (\<lambda>e (st, visited). (packRows_body lengths availableWidth e st, visited @ [e]))
       (([[]], 0, availableWidth), [])"

subsection \<open>The remaining space of a row\<close>

text \<open>
  The space that \<open>packRows\<close> counts as left in a row: the available width less the
  lengths of the row's entries, subtracted one by one, first to last, as the statement
  \<open>spaceLeft -= entryLength\<close> does.
\<close>

definition remainingSpace :: "(string \<rightharpoonup> jsnum) \<Rightarrow> jsnum \<Rightarrow> string list \<Rightarrow> jsnum" where
  "remainingSpace lengths availableWidth row =
     foldl js_sub availableWidth (map (js_lookup lengths) row)"

subsection \<open>Auxiliary definitions for the proofs and the examples\<close>

text \<open>
  \<open>afterSizing\<close> is the legend after the first statement of \<open>_requestedSpace\<close>
  (the conditional call of \<open>sizeEntries\<close>), and \<open>rowsToDraw\<close> is the value that
  \<open>_requestedSpace\<close> assigns to \<open>numRowsToDraw\<close>.
\<close>

definition afterSizing ::
  "(string \<Rightarrow> dimensions) \<Rightarrow> string \<Rightarrow> real \<Rightarrow> legend \<Rightarrow> legend" where
  "afterSizing measureText HEIGHT_TEXT offeredWidth l =
     (if Some offeredWidth \<noteq> previousOfferedWidth l
      then (sizeEntries measureText HEIGHT_TEXT
              (js_max (Num 0) (js_sub (Num offeredWidth) (Num padding))) l)
             \<lparr> previousOfferedWidth := Some offeredWidth \<rparr>
      else l)"

definition rowsToDraw :: "real \<Rightarrow> legend \<Rightarrow> string list list \<Rightarrow> jsnum" where
  "rowsToDraw offeredHeight l rs =
     js_min (if js_floor (js_div (js_sub (Num offeredHeight) (js_mul (Num 2) (Num padding)))
                                 (Num (textHeight l))) = NaN
             then Num 0
             else js_floor (js_div (js_sub (Num offeredHeight) (js_mul (Num 2) (Num padding)))
                                   (Num (textHeight l))))
            (Num (real (length rs)))"

text \<open>
  Text measurers for the examples. With \<open>monospace\<close> every character is one unit wide
  and a line is one unit high. \<open>tieMeasurer\<close> measures a line height of 16 and the
  widths 7.399999999999999 for \<open>a\<close> and 56.900000000000006 for \<open>b\<close>.
  \<open>lineMeasurer h\<close> measures a line height of \<open>h\<close> and no width. The constants
  \<open>double_...\<close> are the doubles that JavaScript prints under these names, given as
  the rational numbers they denote.
\<close>

definition monospace :: "string \<Rightarrow> dimensions" where
  "monospace s = \<lparr> dimensions.width = real (length s), dimensions.height = 1 \<rparr>"

definition double_7_399999999999999 :: real where
  "double_7_399999999999999 = 1041457413829427 / 2 ^ 47"

definition double_56_900000000000006 :: real where
  "double_56_900000000000006 = 2001990771854541 / 2 ^ 45"

definition double_23_4 :: real where
  "double_23_4 = 3293257227514675 / 2 ^ 47"

definition double_28_4 :: real where
  "double_28_4 = 3996944669291315 / 2 ^ 47"

definition double_72_9 :: real where
  "double_72_9 = 2564940725275853 / 2 ^ 45"

definition double_77_9 :: real where
  "double_77_9 = 2740862585720013 / 2 ^ 45"

definition double_106_3 :: real where
  "double_106_3 = 7480197506085683 / 2 ^ 46"

definition double_106_30000000000001 :: real where
  "double_106_30000000000001 = 1870049376521421 / 2 ^ 44"

definition double_111_3 :: real where
  "double_111_3 = 7832041226974003 / 2 ^ 46"

definition double_111_30000000000001 :: real where
  "double_111_30000000000001 = 1958010306743501 / 2 ^ 44"

definition double_16_3 :: real where
  "double_16_3 = 4588042120383693 / 2 ^ 48"

definition double_21_3 :: real where
  "double_21_3 = 5995417003936973 / 2 ^ 48"

definition double_48_9 :: real where
  "double_48_9 = 6882063180575539 / 2 ^ 47"

definition double_48_900000000000006 :: real where
  "double_48_900000000000006 = 1720515795143885 / 2 ^ 45"

definition double_58_9 :: real where
  "double_58_9 = 8289438064128819 / 2 ^ 47"

definition double_58_900000000000006 :: real where
  "double_58_900000000000006 = 2072359516032205 / 2 ^ 45"

definition tieMeasurer :: "string \<Rightarrow> dimensions" where
  "tieMeasurer s =
     \<lparr> dimensions.width = (if s = ''a'' then double_7_399999999999999
                            else double_56_900000000000006),
       dimensions.height = 16 \<rparr>"

definition double_0_8 :: real where
  "double_0_8 = 3602879701896397 / 2 ^ 52"

definition double_0_8000000000000007 :: real where
  "double_0_8000000000000007 = 225179981368525 / 2 ^ 48"

definition double_4_6 :: real where
  "double_4_6 = 2589569785738035 / 2 ^ 49"

definition double_9_2 :: real where
  "double_9_2 = 2589569785738035 / 2 ^ 48"

definition double_14_6 :: real where
  "double_14_6 = 8219069319951155 / 2 ^ 49"

definition lineMeasurer :: "real \<Rightarrow> string \<Rightarrow> dimensions" where
  "lineMeasurer h s = \<lparr> dimensions.width = 0, dimensions.height = h \<rparr>"

section \<open>DataSource (src/dataSource.ts)\<close>

text \<open>
  A value that may be \<open>undefined\<close> (an argument left out) or \<open>null\<close>. The test
  \<open>v == null\<close> of the source holds for both and for nothing else.
\<close>

datatype 'a js = Undefined | Null | Val 'a

fun eq_null :: "'a js \<Rightarrow> bool" where
  "eq_null Undefined = True"
| "eq_null Null = True"
| "eq_null (Val v) = False"

text \<open>
  Modelled from the spec: the class \<open>Broadcaster\<close>, which \<open>DataSource\<close> extends, is
  not among the sources. The specification says of a DataSource that it is "notifying
  registered listeners on mutation". A broadcaster holds its registered listeners, and
  \<open>_broadcast\<close> notifies each of them; the field \<open>notified\<close> logs, for every call of
  \<open>_broadcast\<close>, the listeners that the call notified.
\<close>

record 'l broadcaster =
  listeners :: "'l list"
  notified :: "'l list list"

definition registerListener :: "'l \<Rightarrow> ('l, 'z) broadcaster_scheme \<Rightarrow> ('l, 'z) broadcaster_scheme" where
  "registerListener k b = b\<lparr> listeners := listeners b @ [k] \<rparr>"

definition broadcast :: "('l, 'z) broadcaster_scheme \<Rightarrow> ('l, 'z) broadcaster_scheme" where
  "broadcast b = b\<lparr> notified := notified b @ [listeners b] \<rparr>"

text \<open>
  The fields \<open>_data\<close> and \<open>_metadata\<close> (an identifier cannot start with an
  underscore here). The metadata, "an object containing additional information", is a
  map from property names to values.
\<close>

record ('l, 'd, 'v) dataSource = "'l broadcaster" +
  data_field :: "'d list js"
  metadata_field :: "(string \<rightharpoonup> 'v) js"

text \<open>
  The constructor: a default value replaces an argument that is \<open>undefined\<close>, and only
  that; an explicit \<open>null\<close> is stored as it is.
\<close>

definition DataSource :: "'d list js \<Rightarrow> (string \<rightharpoonup> 'v) js \<Rightarrow> ('l, 'd, 'v) dataSource" where
  "DataSource d m =
     \<lparr> listeners = [], notified = [],
       data_field = (if d = Undefined then Val [] else d),
       metadata_field = (if m = Undefined then Val Map.empty else m) \<rparr>"

text \<open>
  What \<open>data\<close> and \<open>metadata\<close> return: the stored value, or the DataSource itself
  (\<open>this\<close>), which is the state returned beside it.
\<close>

datatype 'a returned = Value 'a | This

definition data :: "'d list js \<Rightarrow> ('l, 'd, 'v) dataSource \<Rightarrow> 'd list js returned \<times> ('l, 'd, 'v) dataSource" where
  "data d s =
     (if eq_null d then (Value (data_field s), s)
      else (let s1 = s\<lparr> data_field := d \<rparr>;
                s2 = broadcast s1
            in (This, s2)))"

definition metadata ::
  "(string \<rightharpoonup> 'v) js \<Rightarrow> ('l, 'd, 'v) dataSource \<Rightarrow> (string \<rightharpoonup> 'v) js returned \<times> ('l, 'd, 'v) dataSource" where
  "metadata m s =
     (if eq_null m then (Value (metadata_field s), s)
      else (let s1 = s\<lparr> metadata_field := m \<rparr>;
                s2 = broadcast s1
            in (This, s2)))"

section \<open>XDragBoxLayer, as its tests describe it\<close>

text \<open>
  Modelled from the spec: the class \<open>Plottable.Components.XDragBoxLayer\<close> is not among
  the sources; only its tests are. The specification calls a drag box layer "an
  interactive overlay permitting a user to draw, resize, or move a rectangular selection
  region via pointer drag gestures, constrained along one or both axes". The tests fix
  the constraint of the X layer: whatever bounds are set, the box starts at the top
  (y = 0) and ends at the bottom (y = the height of the component); a resize gesture puts
  the dragged edge at the x of the drag's end point; a move gesture shifts both edges by
  the x distance of the drag; and a new layout keeps the x of both edges.
\<close>

record point =
  px :: real
  py :: real

record bounds =
  topLeft :: point
  bottomRight :: point

record xDragBoxLayer =
  layer_height :: real
  box :: bounds

definition setBounds :: "bounds \<Rightarrow> xDragBoxLayer \<Rightarrow> xDragBoxLayer" where
  "setBounds b l =
     l\<lparr> box := \<lparr> topLeft = \<lparr> px = px (topLeft b), py = 0 \<rparr>,
                  bottomRight = \<lparr> px = px (bottomRight b), py = layer_height l \<rparr> \<rparr> \<rparr>"

definition getBounds :: "xDragBoxLayer \<Rightarrow> bounds" where
  "getBounds l = box l"

definition computeLayout :: "real \<Rightarrow> xDragBoxLayer \<Rightarrow> xDragBoxLayer" where
  "computeLayout newHeight l = setBounds (getBounds l) (l\<lparr> layer_height := newHeight \<rparr>)"

datatype edge = LeftEdge | RightEdge

datatype gesture = Resize edge point | Move point point

fun dragSequence :: "gesture \<Rightarrow> xDragBoxLayer \<Rightarrow> xDragBoxLayer" where
  "dragSequence (Resize LeftEdge endPoint) l =
     setBounds ((getBounds l)\<lparr> topLeft := endPoint \<rparr>) l"
| "dragSequence (Resize RightEdge endPoint) l =
     setBounds ((getBounds l)\<lparr> bottomRight := endPoint \<rparr>) l"
| "dragSequence (Move startPoint endPoint) l =
     setBounds \<lparr> topLeft = \<lparr> px = px (topLeft (getBounds l)) + (px endPoint - px startPoint),
                              py = py (topLeft (getBounds l)) + (py endPoint - py startPoint) \<rparr>,
                 bottomRight = \<lparr> px = px (bottomRight (getBounds l)) + (px endPoint - px startPoint),
                                  py = py (bottomRight (getBounds l)) + (py endPoint - py startPoint) \<rparr> \<rparr>
               l"

section \<open>Properties of the rounding\<close>

lemma round_half_even_of_int: "round_half_even (of_int m) = m"
  by (simp add: round_half_even_def)

lemma round_half_even_nonneg: "0 \<le> y \<Longrightarrow> 0 \<le> round_half_even y"
  by (auto simp add: round_half_even_def Let_def)

lemma binade_bounds:
  assumes "x \<noteq> 0"
  shows "2 powi \<lfloor>log 2 \<bar>x\<bar>\<rfloor> \<le> \<bar>x\<bar>" and "\<bar>x\<bar> < 2 powi (\<lfloor>log 2 \<bar>x\<bar>\<rfloor> + 1)"
proof -
  let ?e = "\<lfloor>log 2 \<bar>x\<bar>\<rfloor>"
  have a: "(2::real) powr real_of_int ?e = 2 powi ?e"
    and b: "(2::real) powr (real_of_int ?e + 1) = 2 powi (?e + 1)"
    using powr_real_of_int'[of 2 ?e] powr_real_of_int'[of 2 "?e + 1"] by simp_all
  have "2 powr real_of_int ?e \<le> \<bar>x\<bar> \<and> \<bar>x\<bar> < 2 powr (real_of_int ?e + 1)"
    using floor_log_eq_powr_iff[of "\<bar>x\<bar>" 2 ?e] assms by simp
  then show "2 powi ?e \<le> \<bar>x\<bar>" and "\<bar>x\<bar> < 2 powi (?e + 1)"
    by (simp_all add: a b)
qed

lemma ulp_exponent_eq:
  assumes "2 powi e \<le> \<bar>x\<bar>" and "\<bar>x\<bar> < 2 powi (e + 1)"
  shows "ulp_exponent x = max (e - 52) (- 1074)"
proof -
  have "(0::real) < 2 powi e" by simp
  with assms(1) have pos: "0 < \<bar>x\<bar>" by linarith
  have a: "(2::real) powr real_of_int e = 2 powi e"
    and b: "(2::real) powr (real_of_int e + 1) = 2 powi (e + 1)"
    using powr_real_of_int'[of 2 e] powr_real_of_int'[of 2 "e + 1"] by simp_all
  have "\<lfloor>log 2 \<bar>x\<bar>\<rfloor> = e"
    using assms pos by (simp add: floor_log_eq_powr_iff a b)
  then show ?thesis by (simp add: ulp_exponent_def)
qed

lemma overflow_threshold_pos: "0 < overflow_threshold"
  by (simp add: overflow_threshold_def del: power_int_numeral)

lemma below_overflow_threshold: "\<bar>r\<bar> < 2 ^ 64 \<Longrightarrow> \<bar>r\<bar> < overflow_threshold"
proof -
  assume r: "\<bar>r\<bar> < 2 ^ 64"
  have eq: "(2::real) powi 64 = 2 ^ 64"
    by (rule power_int_numeral)
  have "(2::real) powi 64 \<le> 2 powi 1024"
    by (rule power_int_increasing) simp_all
  then have "(2::real) ^ 64 \<le> overflow_threshold"
    unfolding overflow_threshold_def eq .
  with r show ?thesis by linarith
qed

lemma rnd_eval:
  assumes "2 powi e \<le> \<bar>x\<bar>" and "\<bar>x\<bar> < 2 powi (e + 1)"
    and "k = max (e - 52) (- 1074)"
    and "r = of_int (round_half_even (x / 2 powi k)) * 2 powi k"
    and "\<bar>r\<bar> < 2 ^ 64"
  shows "rnd x = Num r"
proof -
  have "(0::real) < 2 powi e" by simp
  with assms(1) have "0 < \<bar>x\<bar>" by linarith
  then have "x \<noteq> 0" by simp
  moreover have "ulp_exponent x = k"
    using ulp_exponent_eq[OF assms(1,2)] assms(3) by simp
  moreover have "\<bar>r\<bar> < overflow_threshold"
    using assms(5) by (rule below_overflow_threshold)
  ultimately show ?thesis
    using assms(4) by (auto simp add: rnd_def Let_def)
qed

lemma rnd_not_NaN: "rnd x \<noteq> NaN"
  by (simp add: rnd_def Let_def)

lemma rnd_nonneg: "0 \<le> x \<Longrightarrow> js_le (Num 0) (rnd x)"
proof -
  assume x: "0 \<le> x"
  have nn: "0 \<le> of_int (round_half_even (x / 2 powi k)) * (2::real) powi k" for k
    using x by (intro mult_nonneg_nonneg) (simp_all add: round_half_even_nonneg)
  have "\<not> of_int (round_half_even (x / 2 powi k)) * (2::real) powi k \<le> - overflow_threshold" for k
    using nn[of k] overflow_threshold_pos by linarith
  then show ?thesis
    using nn by (simp add: rnd_def Let_def)
qed

lemma rnd_of_int:
  assumes "\<bar>n\<bar> < 2 ^ 53"
  shows "rnd (of_int n) = Num (of_int n)"
proof (cases "n = 0")
  case True
  then show ?thesis by (simp add: rnd_def)
next
  case False
  let ?x = "of_int n :: real"
  let ?e = "\<lfloor>log 2 \<bar>?x\<bar>\<rfloor>"
  from False have x0: "?x \<noteq> 0" by simp
  have ax: "\<bar>?x\<bar> = of_int \<bar>n\<bar>" by simp
  from False have "1 \<le> \<bar>n\<bar>" by simp
  then have x1: "1 \<le> \<bar>?x\<bar>"
    unfolding ax by (simp only: of_int_1_le_iff)
  from assms have "(of_int \<bar>n\<bar> :: real) < of_int (2 ^ 53)"
    by (simp only: of_int_less_iff)
  then have x2: "\<bar>?x\<bar> < 2 ^ 53"
    unfolding ax by simp
  define e where "e = \<lfloor>log 2 \<bar>?x\<bar>\<rfloor>"
  have b: "2 powi e \<le> \<bar>?x\<bar>" "\<bar>?x\<bar> < 2 powi (e + 1)"
    unfolding e_def by (rule binade_bounds[OF x0])+
  have e0: "0 \<le> e"
  proof (rule ccontr)
    assume "\<not> 0 \<le> e"
    then have "e + 1 \<le> 0" by linarith
    then have "(2::real) powi (e + 1) \<le> 2 powi 0"
      by (intro power_int_increasing) simp_all
    with b(2) x1 show False by simp
  qed
  have e52: "e \<le> 52"
  proof (rule ccontr)
    assume "\<not> e \<le> 52"
    then have "53 \<le> e" by linarith
    then have "(2::real) powi 53 \<le> 2 powi e"
      by (intro power_int_increasing) simp_all
    with b(1) x2 show False by simp
  qed
  define j where "j = nat (52 - e)"
  have "ulp_exponent ?x = max (e - 52) (- 1074)"
    by (simp only: ulp_exponent_def e_def)
  then have k: "ulp_exponent ?x = - int j"
    using e0 e52 by (simp add: j_def)
  have p: "(2::real) powi (- int j) = inverse (2 ^ j)"
    by (simp add: power_int_minus)
  have q: "?x / 2 powi (- int j) = of_int (n * 2 ^ j)"
    by (simp add: p divide_inverse)
  have r: "of_int (round_half_even (?x / 2 powi (- int j))) * (2::real) powi (- int j) = ?x"
    unfolding q round_half_even_of_int by (simp add: p divide_inverse)
  have "\<bar>?x\<bar> < 2 ^ 64"
    using x2 by (simp add: order_less_trans)
  then have "\<bar>?x\<bar> < overflow_threshold"
    by (rule below_overflow_threshold)
  then have "\<not> ?x \<le> - overflow_threshold" and "\<not> overflow_threshold \<le> ?x"
    by linarith+
  then show ?thesis
    using x0 k r by (simp add: rnd_def Let_def)
qed

lemma rnd_numeral [simp]:
  "(numeral w :: int) < 2 ^ 53 \<Longrightarrow> rnd (numeral w) = Num (numeral w)"
  using rnd_of_int[of "numeral w"] by simp

lemma rnd_neg_numeral [simp]:
  "(numeral w :: int) < 2 ^ 53 \<Longrightarrow> rnd (- numeral w) = Num (- numeral w)"
  using rnd_of_int[of "- numeral w"] by simp

lemma rnd_0 [simp]: "rnd 0 = Num 0"
  by (simp add: rnd_def)

lemma rnd_1 [simp]: "rnd 1 = Num 1"
  using rnd_of_int[of 1] by simp

lemma rnd_of_nat: "n < 2 ^ 53 \<Longrightarrow> rnd (real n) = Num (real n)"
  using rnd_of_int[of "int n"] by simp

section \<open>Properties of the legend layout\<close>

lemma forEach_fold: "forEach es f s = fold f es s"
  by (induction es arbitrary: s) simp_all

lemma forEach_snoc: "forEach (es @ [e]) f s = f e (forEach es f s)"
  by (induction es arbitrary: s) simp_all

lemma packRows_body_last:
  assumes "rs \<noteq> []" and "currentRow = length rs - 1"
  shows "packRows_body lengths aw e (rs, currentRow, spaceLeft) =
    (if js_gt (js_lookup lengths e) spaceLeft
     then (rs @ [[e]], length rs, js_sub aw (js_lookup lengths e))
     else (butlast rs @ [last rs @ [e]], currentRow, js_sub spaceLeft (js_lookup lengths e)))"
proof (cases rs rule: rev_cases)
  case Nil
  with assms show ?thesis by simp
next
  case (snoc ys y)
  with assms show ?thesis
    by (simp add: packRows_body_def nth_append list_update_append)
qed

lemma packRows_loop_snoc:
  "packRows_loop lengths aw (es @ [e]) = packRows_body lengths aw e (packRows_loop lengths aw es)"
  by (simp add: packRows_loop_def forEach_snoc)

lemma packRows_loop_shape:
  "fst (packRows_loop lengths aw es) \<noteq> [] \<and>
   fst (snd (packRows_loop lengths aw es)) = length (fst (packRows_loop lengths aw es)) - 1 \<and>
   concat (fst (packRows_loop lengths aw es)) = es"
proof (induction es rule: rev_induct)
  case Nil
  show ?case by (simp add: packRows_loop_def)
next
  case (snoc e es)
  obtain rs cur sl where st: "packRows_loop lengths aw es = (rs, cur, sl)"
    by (cases "packRows_loop lengths aw es") auto
  with snoc have inv: "rs \<noteq> []" "cur = length rs - 1" "concat rs = es" by simp_all
  have "concat (butlast rs) @ last rs = concat rs"
    using inv(1) by (metis append_butlast_last_id concat_append concat.simps append_Nil2)
  then show ?case
    using inv by (simp add: packRows_loop_snoc st packRows_body_last)
qed

lemma packRows_loop_step:
  "packRows_loop lengths aw (es @ [e]) =
     (case packRows_loop lengths aw es of (rs, currentRow, spaceLeft) \<Rightarrow>
        if js_gt (js_lookup lengths e) spaceLeft
        then (rs @ [[e]], length rs, js_sub aw (js_lookup lengths e))
        else (butlast rs @ [last rs @ [e]], currentRow, js_sub spaceLeft (js_lookup lengths e)))"
proof -
  obtain rs cur sl where st: "packRows_loop lengths aw es = (rs, cur, sl)"
    by (cases "packRows_loop lengths aw es") auto
  from packRows_loop_shape[of lengths aw es] st
  have inv: "rs \<noteq> []" "cur = length rs - 1" by simp_all
  show ?thesis
    by (simp add: packRows_loop_snoc st packRows_body_last[OF inv])
qed

lemma rows_packRows:
  "rows (packRows aw l) = Some (fst (packRows_loop (entryLengths l) aw (scale_domain l)))"
  by (simp add: packRows_def)

lemma entryLengths_packRows: "entryLengths (packRows aw l) = entryLengths l"
  by (simp add: packRows_def)

text \<open>Order facts about JavaScript numbers.\<close>

lemma js_not_gt_le: "a \<noteq> NaN \<Longrightarrow> b \<noteq> NaN \<Longrightarrow> \<not> js_gt a b \<Longrightarrow> js_le a b"
  by (cases a; cases b) simp_all

lemma js_le_not_NaN: "js_le a b \<Longrightarrow> a \<noteq> NaN \<and> b \<noteq> NaN"
  by (cases a; cases b) simp_all

lemma js_sub_nonneg:
  "js_le (Num 0) sl \<Longrightarrow> js_le len sl \<Longrightarrow> len \<noteq> PosInf \<Longrightarrow> js_le (Num 0) (js_sub sl len)"
  by (cases sl; cases len) (simp_all add: rnd_nonneg)

lemma js_min_le: "x \<noteq> NaN \<Longrightarrow> aw \<noteq> NaN \<Longrightarrow> js_le (js_min x aw) aw"
  by (cases x; cases aw) simp_all

lemma js_le_Num_not_PosInf: "js_le x (Num a) \<Longrightarrow> x \<noteq> PosInf"
  by (cases x) simp_all

lemma js_add_Num_not_NaN: "js_add (js_add (Num a) (Num b)) (Num c) \<noteq> NaN"
  by (cases "rnd (a + b)") (simp_all add: rnd_not_NaN)

text \<open>The remaining space of the current row never becomes negative.\<close>

lemma packRows_loop_spaceLeft_nonneg:
  assumes "0 \<le> a" and "\<forall>e\<in>set es. js_le (js_lookup lengths e) (Num a)"
  shows "js_le (Num 0) (snd (snd (packRows_loop lengths (Num a) es)))"
  using assms(2)
proof (induction es rule: rev_induct)
  case Nil
  show ?case using assms(1) by (simp add: packRows_loop_def)
next
  case (snoc e es)
  obtain rs cur sl where st: "packRows_loop lengths (Num a) es = (rs, cur, sl)"
    by (cases "packRows_loop lengths (Num a) es") auto
  from snoc st have sl: "js_le (Num 0) sl" by simp
  from snoc.prems have len: "js_le (js_lookup lengths e) (Num a)" by simp
  then have fin: "js_lookup lengths e \<noteq> PosInf" and nn: "js_lookup lengths e \<noteq> NaN"
    using js_le_Num_not_PosInf js_le_not_NaN by blast+
  from sl have sl_nn: "sl \<noteq> NaN" using js_le_not_NaN by blast
  show ?case
  proof (cases "js_gt (js_lookup lengths e) sl")
    case True
    have "js_le (Num 0) (js_sub (Num a) (js_lookup lengths e))"
      using assms(1) len fin by (intro js_sub_nonneg) simp_all
    with True show ?thesis
      by (simp add: packRows_loop_step st)
  next
    case False
    with nn sl_nn have "js_le (js_lookup lengths e) sl" by (rule js_not_gt_le)
    with sl fin have "js_le (Num 0) (js_sub sl (js_lookup lengths e))"
      by (intro js_sub_nonneg)
    with False show ?thesis
      by (simp add: packRows_loop_step st)
  qed
qed

text \<open>What \<open>sizeEntries\<close> stores.\<close>

lemma sizing_forEach:
  "forEach es (sizeEntries_body measureText aw) l =
   l\<lparr> entryLengths := (\<lambda>e. if e \<in> set es \<and> e \<noteq> ''__proto__''
          then Some (js_min (js_add (js_add (Num (textHeight l)) (Num (dimensions.width (measureText e))))
                                    (Num padding)) aw)
          else entryLengths l e) \<rparr>"
proof (induction es arbitrary: l)
  case Nil
  show ?case by simp
next
  case (Cons a es)
  let ?v = "\<lambda>e. js_min (js_add (js_add (Num (textHeight l)) (Num (dimensions.width (measureText e))))
                                    (Num padding)) aw"
  let ?l1 = "sizeEntries_body measureText aw a l"
  have l1: "?l1 = l\<lparr> entryLengths := js_put (entryLengths l) a (?v a) \<rparr>"
    by (simp add: sizeEntries_body_def)
  have "forEach (a # es) (sizeEntries_body measureText aw) l =
        forEach es (sizeEntries_body measureText aw) ?l1"
    by simp
  also have "\<dots> = ?l1\<lparr> entryLengths := (\<lambda>e. if e \<in> set es \<and> e \<noteq> ''__proto__''
          then Some (js_min (js_add (js_add (Num (textHeight ?l1)) (Num (dimensions.width (measureText e))))
                                    (Num padding)) aw)
          else entryLengths ?l1 e) \<rparr>"
    by (rule Cons.IH)
  also have "\<dots> = l\<lparr> entryLengths := (\<lambda>e. if e \<in> set es \<and> e \<noteq> ''__proto__'' then Some (?v e)
          else js_put (entryLengths l) a (?v a) e) \<rparr>"
    by (simp add: l1 cong: if_cong)
  also have "(\<lambda>e. if e \<in> set es \<and> e \<noteq> ''__proto__'' then Some (?v e)
                   else js_put (entryLengths l) a (?v a) e) =
        (\<lambda>e. if e \<in> set (a # es) \<and> e \<noteq> ''__proto__'' then Some (?v e) else entryLengths l e)"
    by (auto simp add: fun_eq_iff js_put_def)
  finally show ?case .
qed

lemma sizeEntries_eq:
  "sizeEntries measureText ht aw l =
   packRows aw (l\<lparr> textHeight := dimensions.height (measureText ht),
                  entryLengths := (\<lambda>e. if e \<in> set (scale_domain l) \<and> e \<noteq> ''__proto__''
                     then Some (js_min (js_add (js_add (Num (dimensions.height (measureText ht)))
                                                       (Num (dimensions.width (measureText e))))
                                               (Num padding)) aw)
                     else None) \<rparr>)"
  by (simp add: sizeEntries_def Let_def sizing_forEach cong: if_cong)

lemma sizeEntries_entryLengths:
  "entryLengths (sizeEntries measureText ht aw l) =
     (\<lambda>e. if e \<in> set (scale_domain l) \<and> e \<noteq> ''__proto__''
          then Some (js_min (js_add (js_add (Num (dimensions.height (measureText ht)))
                                            (Num (dimensions.width (measureText e))))
                                    (Num padding)) aw)
          else None)"
  by (simp add: sizeEntries_eq entryLengths_packRows)

lemma sizeEntries_fields:
  "textHeight (sizeEntries measureText ht aw l) = dimensions.height (measureText ht)"
  "scale_domain (sizeEntries measureText ht aw l) = scale_domain l"
  "rows (sizeEntries measureText ht aw l) =
     Some (fst (packRows_loop (entryLengths (sizeEntries measureText ht aw l)) aw (scale_domain l)))"
  by (simp_all add: sizeEntries_eq packRows_def)

lemma sizeEntries_lookup:
  "js_lookup (entryLengths (sizeEntries measureText ht aw l)) e =
     (if e \<in> set (scale_domain l) \<and> e \<noteq> ''__proto__''
      then js_min (js_add (js_add (Num (dimensions.height (measureText ht)))
                                  (Num (dimensions.width (measureText e))))
                          (Num padding)) aw
      else NaN)"
  by (simp add: sizeEntries_entryLengths js_lookup_def js_get_def)

lemma sizeEntries_clamped:
  assumes "e \<in> set (scale_domain l)" and "e \<noteq> ''__proto__''" and "aw \<noteq> NaN"
  shows "js_le (js_lookup (entryLengths (sizeEntries measureText ht aw l)) e) aw"
proof -
  let ?x = "js_add (js_add (Num (dimensions.height (measureText ht)))
                          (Num (dimensions.width (measureText e)))) (Num padding)"
  from assms(1,2) have "js_lookup (entryLengths (sizeEntries measureText ht aw l)) e = js_min ?x aw"
    by (simp only: sizeEntries_lookup simp_thms if_True)
  moreover have "js_le (js_min ?x aw) aw"
    using js_add_Num_not_NaN assms(3) by (rule js_min_le)
  ultimately show ?thesis by (simp only:)
qed

lemma packRows_loop_remainingSpace:
  "snd (snd (packRows_loop lengths aw es)) =
     remainingSpace lengths aw (last (fst (packRows_loop lengths aw es)))"
proof (induction es rule: rev_induct)
  case Nil
  show ?case by (simp add: packRows_loop_def remainingSpace_def)
next
  case (snoc e es)
  obtain rs cur sl where st: "packRows_loop lengths aw es = (rs, cur, sl)"
    by (cases "packRows_loop lengths aw es") auto
  from snoc st have sl: "sl = remainingSpace lengths aw (last rs)" by simp
  show ?case
    by (simp add: packRows_loop_step st sl remainingSpace_def)
qed

lemma packRows_step:
  assumes "rows (packRows aw (l\<lparr>scale_domain := es\<rparr>)) = Some rs"
  shows "rows (packRows aw (l\<lparr>scale_domain := es @ [e]\<rparr>)) =
     Some (if js_gt (js_lookup (entryLengths l) e) (remainingSpace (entryLengths l) aw (last rs))
           then rs @ [[e]]
           else butlast rs @ [last rs @ [e]])"
proof -
  let ?st = "packRows_loop (entryLengths l) aw es"
  obtain rs0 cur sl where st: "?st = (rs0, cur, sl)"
    by (cases ?st) auto
  from assms st have rs0: "rs0 = rs" by (simp add: rows_packRows)
  from packRows_loop_remainingSpace[of "entryLengths l" aw es] st rs0
  have sl: "sl = remainingSpace (entryLengths l) aw (last rs)" by simp
  show ?thesis
    using st rs0 sl by (simp add: rows_packRows packRows_loop_step)
qed

lemma packRows_loop_rows_nonneg:
  assumes "0 \<le> a" and "\<forall>e\<in>set es. js_le (js_lookup lengths e) (Num a)"
  shows "\<forall>row\<in>set (fst (packRows_loop lengths (Num a) es)).
           js_le (Num 0) (remainingSpace lengths (Num a) row)"
  using assms(2)
proof (induction es rule: rev_induct)
  case Nil
  show ?case using assms(1) by (simp add: packRows_loop_def remainingSpace_def)
next
  case (snoc e es)
  obtain rs cur sl where st: "packRows_loop lengths (Num a) es = (rs, cur, sl)"
    by (cases "packRows_loop lengths (Num a) es") auto
  from snoc st have old: "\<forall>row\<in>set rs. js_le (Num 0) (remainingSpace lengths (Num a) row)"
    by simp
  have bl: "set (butlast rs) \<subseteq> set rs"
    by (metis in_set_butlastD subsetI)
  from packRows_loop_spaceLeft_nonneg[OF assms(1) snoc.prems]
  have new: "js_le (Num 0) (snd (snd (packRows_loop lengths (Num a) (es @ [e]))))" .
  have new': "js_le (Num 0)
      (remainingSpace lengths (Num a) (last (fst (packRows_loop lengths (Num a) (es @ [e])))))"
    using new by (simp only: packRows_loop_remainingSpace)
  show ?case
  proof (cases "js_gt (js_lookup lengths e) sl")
    case True
    with new' old show ?thesis
      by (simp add: packRows_loop_step st)
  next
    case False
    with new' old bl show ?thesis
      by (auto simp add: packRows_loop_step st)
  qed
qed

lemma sizeEntries_rows_nonneg:
  assumes "0 \<le> a" and "''__proto__'' \<notin> set (scale_domain l)"
  shows "\<exists>rs. rows (sizeEntries measureText ht (Num a) l) = Some rs \<and>
          (\<forall>row\<in>set rs. js_le (Num 0)
             (remainingSpace (entryLengths (sizeEntries measureText ht (Num a) l)) (Num a) row))"
proof -
  let ?s = "sizeEntries measureText ht (Num a) l"
  have "\<forall>e\<in>set (scale_domain l). js_le (js_lookup (entryLengths ?s) e) (Num a)"
    using assms(2) by (auto intro!: sizeEntries_clamped)
  from packRows_loop_rows_nonneg[OF assms(1) this]
  show ?thesis
    by (simp add: sizeEntries_fields)
qed

text \<open>
  Claim C1 (amended). \<open>packRows\<close> places the entries greedily in one pass from left
  to right. On an empty domain it leaves one empty row. When the entries \<open>es\<close> have
  been packed into the rows \<open>rs\<close>, the next entry \<open>e\<close> starts a new row exactly when
  its length exceeds the remaining space of the current (last) row, and is appended to
  the current row otherwise; the remaining space is the available width less the lengths
  of the row's entries, subtracted one by one in double arithmetic. For the entry lengths
  that \<open>sizeEntries\<close> produces for a domain without the entry \<open>__proto__\<close>, and an
  available width that is not negative, the remaining space of every produced row is not
  negative. (The sum of the lengths of a row can exceed the available width by the
  rounding of the subtractions.)
\<close>

theorem packRows_greedy:
  "rows (packRows aw (l\<lparr>scale_domain := []\<rparr>)) = Some [[]] \<and>
   (rows (packRows aw (l\<lparr>scale_domain := es\<rparr>)) = Some rs \<longrightarrow>
    rows (packRows aw (l\<lparr>scale_domain := es @ [e]\<rparr>)) =
      Some (if js_gt (js_lookup (entryLengths l) e) (remainingSpace (entryLengths l) aw (last rs))
            then rs @ [[e]]
            else butlast rs @ [last rs @ [e]])) \<and>
   (0 \<le> a \<and> ''__proto__'' \<notin> set (scale_domain l) \<longrightarrow>
     (\<exists>rs. rows (sizeEntries measureText ht (Num a) l) = Some rs \<and>
        (\<forall>row\<in>set rs. js_le (Num 0)
           (remainingSpace (entryLengths (sizeEntries measureText ht (Num a) l)) (Num a) row))))"
proof -
  have "rows (packRows aw (l\<lparr>scale_domain := []\<rparr>)) = Some [[]]"
    by (simp add: rows_packRows packRows_loop_def)
  then show ?thesis
    using packRows_step sizeEntries_rows_nonneg
    by blast
qed

text \<open>
  An instance of C1: with lengths 7 and 8 and an available width of 10, the second entry
  is longer than the remaining 3 and starts a new row; and the two rows that
  \<open>sizeEntries\<close> produces for this domain and width have the remaining spaces 3 and 2.
\<close>

theorem packRows_greedy_witness:
  "rows (packRows (Num 10)
           ((HorizontalLegend [''a'', ''bb''])\<lparr>entryLengths := [''a'' \<mapsto> Num 7, ''bb'' \<mapsto> Num 8],
                                                 scale_domain := [''a'']\<rparr>)) = Some [[''a'']] \<and>
   rows (packRows (Num 10)
           ((HorizontalLegend [''a'', ''bb''])\<lparr>entryLengths := [''a'' \<mapsto> Num 7, ''bb'' \<mapsto> Num 8],
                                                 scale_domain := [''a'', ''bb'']\<rparr>)) =
     Some [[''a''], [''bb'']] \<and>
   rows (sizeEntries monospace ''bqpdl'' (Num 10)
           ((HorizontalLegend [''a'', ''bb''])\<lparr>entryLengths := [''a'' \<mapsto> Num 7, ''bb'' \<mapsto> Num 8]\<rparr>)) =
     Some [[''a''], [''bb'']] \<and>
   list_all (\<lambda>row. js_le (Num 0)
      (remainingSpace (entryLengths (sizeEntries monospace ''bqpdl'' (Num 10)
         ((HorizontalLegend [''a'', ''bb''])\<lparr>entryLengths := [''a'' \<mapsto> Num 7, ''bb'' \<mapsto> Num 8]\<rparr>)))
         (Num 10) row))
      [[''a''], [''bb'']]"
proof -
  let ?l = "(HorizontalLegend [''a'', ''bb''])\<lparr>entryLengths := [''a'' \<mapsto> Num 7, ''bb'' \<mapsto> Num 8]\<rparr>"
  have h1: "rows (packRows (Num 10) (?l\<lparr>scale_domain := [''a'']\<rparr>)) = Some [[''a'']]"
    by (simp add: packRows_def packRows_loop_def packRows_body_def js_lookup_def js_get_def
        HorizontalLegend_def)
  have h2: "js_gt (js_lookup (entryLengths ?l) ''bb'')
              (remainingSpace (entryLengths ?l) (Num 10) (last [[''a'']]))"
    by (simp add: remainingSpace_def js_lookup_def js_get_def HorizontalLegend_def)
  have h3: "(0::real) \<le> 10" "''__proto__'' \<notin> set (scale_domain ?l)"
    by (simp_all add: HorizontalLegend_def)
  have h4: "rows (sizeEntries monospace ''bqpdl'' (Num 10) ?l) = Some [[''a''], [''bb'']]"
    by (simp add: sizeEntries_def sizeEntries_body_def js_put_def packRows_def packRows_loop_def
        packRows_body_def js_lookup_def js_get_def HorizontalLegend_def monospace_def padding_def)
  from packRows_greedy[where aw = "Num 10" and l = ?l and es = "[''a'']" and rs = "[[''a'']]"
      and e = "''bb''" and a = 10 and measureText = monospace and ht = "''bqpdl''"] h1 h2 h3 h4
  show ?thesis
    by (simp add: list_all_iff)
qed

text \<open>The doubles of the examples.\<close>

lemma tie_doubles:
  "rnd (16 + double_7_399999999999999) = Num double_23_4"
  "rnd (double_23_4 + padding) = Num double_28_4"
  "rnd (16 + double_56_900000000000006) = Num double_72_9"
  "rnd (double_72_9 + padding) = Num double_77_9"
  "rnd (double_106_3 - double_28_4) = Num double_77_9"
  "rnd (double_28_4 + double_77_9) = Num double_106_30000000000001"
  "rnd double_28_4 = Num double_28_4"
  unfolding double_7_399999999999999_def double_23_4_def double_28_4_def
    double_56_900000000000006_def double_72_9_def double_77_9_def double_106_3_def
    double_106_30000000000001_def padding_def
         apply (rule rnd_eval[where e = 4 and k = "-48"]; simp add: round_half_even_def)
        apply (rule rnd_eval[where e = 4 and k = "-48"]; simp add: round_half_even_def)
       apply (rule rnd_eval[where e = 6 and k = "-46"]; simp add: round_half_even_def)
      apply (rule rnd_eval[where e = 6 and k = "-46"]; simp add: round_half_even_def)
     apply (rule rnd_eval[where e = 6 and k = "-46"]; simp add: round_half_even_def)
    apply (rule rnd_eval[where e = 6 and k = "-46"]; simp add: round_half_even_def)
  apply (rule rnd_eval[where e = 4 and k = "-48"]; simp add: round_half_even_def)
  done

lemma tie_order:
  "min double_28_4 double_106_3 = double_28_4"
  "min double_77_9 double_106_3 = double_77_9"
  "\<not> double_106_3 < double_28_4"
  "double_28_4 \<le> double_106_3"
  "double_77_9 \<le> double_106_3"
  "double_106_3 < double_106_30000000000001"
  "double_106_3 < double_28_4 + double_77_9"
  by (simp_all add: double_28_4_def double_77_9_def double_106_3_def
      double_106_30000000000001_def)

lemma tie_doubles_offer:
  "rnd (double_111_3 - 5) = Num double_106_3"
  "rnd (5 + double_106_30000000000001) = Num double_111_30000000000001"
  unfolding double_111_3_def double_106_3_def double_106_30000000000001_def
    double_111_30000000000001_def
   apply (rule rnd_eval[where e = 6 and k = "-46"]; simp add: round_half_even_def)
  apply (rule rnd_eval[where e = 6 and k = "-46"]; simp add: round_half_even_def)
  done

lemma tie_order_offer:
  "max 0 double_106_3 = double_106_3"
  "double_111_3 < double_111_30000000000001"
  by (simp_all add: double_106_3_def double_111_3_def double_111_30000000000001_def)

lemma tie_doubles5:
  "rnd (double_23_4 + 5) = Num double_28_4"
  "rnd (double_72_9 + 5) = Num double_77_9"
  using tie_doubles(2,4) by (simp_all add: padding_def)

text \<open>
  Against C1 as it is worded. The measurer gives a line height of 16 and the text widths
  7.399999999999999 and 56.900000000000006, so that the entries are 28.4 and 77.9 long;
  the offered width is 111.3 and the available width 106.3. \<open>106.3 - 28.4\<close> rounds
  up to 77.9, the second entry is not longer than this remaining space, and both entries
  are put in one row, although the two lengths together exceed the available width: the
  exact sum does, and so does the row length that \<open>d3.sum\<close> computes,
  106.30000000000001. \<open>_requestedSpace\<close> then asks for a width above the offered one.
\<close>

theorem packRows_rounding_counterexample:
  "rows (sizeEntries tieMeasurer ''bqpdl'' (Num double_106_3) (HorizontalLegend [''a'', ''b''])) =
     Some [[''a'', ''b'']] \<and>
   entryLengths (sizeEntries tieMeasurer ''bqpdl'' (Num double_106_3) (HorizontalLegend [''a'', ''b''])) =
     [''a'' \<mapsto> Num double_28_4, ''b'' \<mapsto> Num double_77_9] \<and>
   double_28_4 \<le> double_106_3 \<and> double_77_9 \<le> double_106_3 \<and>
   double_106_3 < double_28_4 + double_77_9 \<and>
   rowLength (sizeEntries tieMeasurer ''bqpdl'' (Num double_106_3) (HorizontalLegend [''a'', ''b'']))
     [''a'', ''b''] = Num double_106_30000000000001 \<and>
   double_106_3 < double_106_30000000000001 \<and>
   requestedSpace tieMeasurer ''bqpdl'' double_111_3 42 (HorizontalLegend [''a'', ''b'']) =
     Inr (\<lparr> width = Num double_111_30000000000001, height = Num 26,
             wantsWidth = True, wantsHeight = False \<rparr>,
          \<lparr> scale_domain = [''a'', ''b''], textHeight = 16,
            entryLengths = [''a'' \<mapsto> Num double_28_4, ''b'' \<mapsto> Num double_77_9],
            rows = Some [[''a'', ''b'']],
            previousOfferedWidth = Some double_111_3, numRowsToDraw = Num 1 \<rparr>)"
  by (simp add: requestedSpace_def sizeEntries_def sizeEntries_body_def js_put_def packRows_def
      packRows_loop_def packRows_body_def js_lookup_def js_get_def HorizontalLegend_def
      tieMeasurer_def rowLength_def d3_sum_def js_lt_def Let_def padding_def
      tie_doubles tie_doubles5 tie_order tie_doubles_offer tie_order_offer)

text \<open>
  Claim C2. Every entry of the domain is to have a length of at most the available width.
  For every entry but \<open>__proto__\<close> this is so (\<open>sizeEntries_clamped\<close> above). For
  the domain entry \<open>__proto__\<close> the assignment to \<open>entryLengths\<close> stores nothing:
  after \<open>sizeEntries\<close> with an available width of 3 the entry has no length, what is
  read under it is not a number, and the comparison with the available width fails.
\<close>

theorem sizeEntries_proto_not_clamped:
  "scale_domain (sizeEntries monospace ''bqpdl'' (Num 3) (HorizontalLegend [''__proto__''])) =
     [''__proto__''] \<and>
   entryLengths (sizeEntries monospace ''bqpdl'' (Num 3) (HorizontalLegend [''__proto__''])) =
     Map.empty \<and>
   js_lookup (entryLengths (sizeEntries monospace ''bqpdl'' (Num 3) (HorizontalLegend [''__proto__''])))
     ''__proto__'' = NaN \<and>
   \<not> js_le (js_lookup (entryLengths (sizeEntries monospace ''bqpdl'' (Num 3)
                  (HorizontalLegend [''__proto__''])))
                ''__proto__'') (Num 3)"
  by (simp add: sizeEntries_def sizeEntries_body_def js_put_def packRows_def
      js_lookup_def js_get_def HorizontalLegend_def)

text \<open>
  Claim C6. \<open>packRows\<close> is one pass over the domain: it equals the single fold
  \<open>packRows_fold\<close>, and the loop run with a log calls its body on exactly the
  entries of the domain, each once and in order, and computes the same state. Both hold
  for every domain, every assignment of entry lengths and every available width; the
  loop is a total function by structural recursion on the (finite) domain list.
\<close>

theorem packRows_single_pass:
  "packRows aw l = packRows_fold aw l \<and>
   packRows_traced (entryLengths l) aw (scale_domain l) =
     (packRows_loop (entryLengths l) aw (scale_domain l), scale_domain l)"
proof -
  have "forEach es (\<lambda>e (st, visited). (packRows_body lengths aw e st, visited @ [e])) (s, vis)
        = (forEach es (packRows_body lengths aw) s, vis @ es)" for es lengths s vis
    by (induction es arbitrary: s vis) simp_all
  then show ?thesis
    by (simp add: packRows_def packRows_fold_def packRows_traced_def packRows_loop_def forEach_fold)
qed

text \<open>
  Claim C8. The rows that \<open>packRows\<close> produces, concatenated in order, are exactly
  the domain list: no entry is dropped, duplicated or reordered, whatever the entry
  lengths (also undefined ones) and the available width are.
\<close>

theorem packRows_concat:
  "map_option concat (rows (packRows aw l)) = Some (scale_domain l)"
  using packRows_loop_shape[of "entryLengths l" aw "scale_domain l"]
  by (simp add: rows_packRows)

text \<open>\<open>_requestedSpace\<close>, unfolded.\<close>

lemma requestedSpace_unfold:
  "requestedSpace measureText ht ow oh l =
     (case rows (afterSizing measureText ht ow l) of
        None \<Rightarrow> Inl TypeError
      | Some rs \<Rightarrow>
          Inr (\<lparr> width = js_add (Num padding)
                   (case d3_max (map (rowLength (afterSizing measureText ht ow l)) rs) of
                        None \<Rightarrow> Num 0 | Some m \<Rightarrow> m),
                 height = js_add (js_mul (rowsToDraw oh (afterSizing measureText ht ow l) rs)
                                    (Num (textHeight (afterSizing measureText ht ow l))))
                            (js_mul (Num 2) (Num padding)),
                 wantsWidth = js_lt (Num ow) (js_add (Num padding)
                   (case d3_max (map (rowLength (afterSizing measureText ht ow l)) rs) of
                        None \<Rightarrow> Num 0 | Some m \<Rightarrow> m)),
                 wantsHeight = js_lt (Num oh)
                   (js_add (js_mul (Num (real (length rs)))
                                   (Num (textHeight (afterSizing measureText ht ow l))))
                           (js_mul (Num 2) (Num padding))) \<rparr>,
               (afterSizing measureText ht ow l)
                 \<lparr> numRowsToDraw := rowsToDraw oh (afterSizing measureText ht ow l) rs \<rparr>))"
  by (simp add: requestedSpace_def afterSizing_def rowsToDraw_def Let_def split: option.split)

lemma afterSizing_fresh:
  "previousOfferedWidth l \<noteq> Some ow \<Longrightarrow>
   afterSizing measureText ht ow l =
     (sizeEntries measureText ht (js_max (Num 0) (js_sub (Num ow) (Num padding))) l)
       \<lparr> previousOfferedWidth := Some ow \<rparr>"
  by (auto simp add: afterSizing_def)

lemma afterSizing_rows:
  assumes "previousOfferedWidth l = Some ow \<longrightarrow> rows l \<noteq> None"
  shows "\<exists>rs. rows (afterSizing measureText ht ow l) = Some rs"
proof (cases "previousOfferedWidth l = Some ow")
  case True
  with assms show ?thesis by (auto simp add: afterSizing_def)
next
  case False
  then show ?thesis
    by (simp add: afterSizing_fresh sizeEntries_eq rows_packRows)
qed

lemma two_padding: "js_mul (Num 2) (Num padding) = Num 10"
  by (simp add: padding_def)

lemma js_div_nonneg:
  "js_le (Num 0) x \<Longrightarrow> 0 < t \<Longrightarrow> js_le (Num 0) (js_div x (Num t))"
  by (cases x) (simp_all add: rnd_nonneg)

lemma js_floor_nonneg: "js_le (Num 0) x \<Longrightarrow> js_le (Num 0) (js_floor x)"
  by (cases x) simp_all

lemma js_min_nonneg: "js_le (Num 0) x \<Longrightarrow> 0 \<le> n \<Longrightarrow> js_le (Num 0) (js_min x (Num n))"
  by (cases x) simp_all

lemma js_div_pos_not_NaN: "x \<noteq> NaN \<Longrightarrow> 0 < t \<Longrightarrow> js_div x (Num t) \<noteq> NaN"
  by (cases x) (simp_all add: rnd_not_NaN)

lemma js_floor_not_NaN: "x \<noteq> NaN \<Longrightarrow> js_floor x \<noteq> NaN"
  by (cases x) simp_all

lemma rowsAvailable_not_NaN:
  "0 < t \<Longrightarrow> js_floor (js_div (js_sub (Num oh) (js_mul (Num 2) (Num padding))) (Num t)) \<noteq> NaN"
proof -
  assume t: "0 < t"
  have "js_sub (Num oh) (js_mul (Num 2) (Num padding)) \<noteq> NaN"
    by (simp only: two_padding js_sub.simps rnd_not_NaN not_False_eq_True)
  with t show ?thesis
    by (intro js_floor_not_NaN js_div_pos_not_NaN)
qed

lemma rowsToDraw_positive:
  "0 < textHeight l \<Longrightarrow>
   rowsToDraw oh l rs =
     js_min (js_floor (js_div (js_sub (Num oh) (js_mul (Num 2) (Num padding))) (Num (textHeight l))))
            (Num (real (length rs)))"
  using rowsAvailable_not_NaN[of "textHeight l" oh] by (simp only: rowsToDraw_def if_False)

lemma rowsToDraw_nonneg:
  assumes "0 < textHeight l" and "2 * padding \<le> oh"
  shows "js_le (Num 0) (rowsToDraw oh l rs)"
proof -
  have "js_le (Num 0) (js_sub (Num oh) (js_mul (Num 2) (Num padding)))"
    using assms(2) by (simp add: two_padding padding_def rnd_nonneg)
  then have "js_le (Num 0)
      (js_floor (js_div (js_sub (Num oh) (js_mul (Num 2) (Num padding))) (Num (textHeight l))))"
    using assms(1) by (intro js_floor_nonneg js_div_nonneg)
  then have "js_le (Num 0)
      (js_min (js_floor (js_div (js_sub (Num oh) (js_mul (Num 2) (Num padding))) (Num (textHeight l))))
              (Num (real (length rs))))"
    by (rule js_min_nonneg) simp
  then show ?thesis
    by (simp only: rowsToDraw_positive[OF assms(1)])
qed

lemma requestedSpace_returns:
  assumes "previousOfferedWidth l = Some ow \<longrightarrow> rows l \<noteq> None"
  shows "\<exists>req l' rs. requestedSpace measureText ht ow oh l = Inr (req, l') \<and> rows l' = Some rs \<and>
     (0 < textHeight l' \<longrightarrow>
       numRowsToDraw l' =
         js_min (js_floor (js_div (js_sub (Num oh) (js_mul (Num 2) (Num padding)))
                                  (Num (textHeight l'))))
                (Num (real (length rs))) \<and>
       ISpaceRequest.height req =
         js_add (js_mul (numRowsToDraw l') (Num (textHeight l'))) (js_mul (Num 2) (Num padding)) \<and>
       (2 * padding \<le> oh \<longrightarrow> js_le (Num 0) (numRowsToDraw l')))"
proof -
  let ?l1 = "afterSizing measureText ht ow l"
  from afterSizing_rows[OF assms] obtain rs where rs: "rows ?l1 = Some rs" by blast
  define l' where "l' = ?l1\<lparr> numRowsToDraw := rowsToDraw oh ?l1 rs \<rparr>"
  define req where "req = \<lparr> width = js_add (Num padding)
                   (case d3_max (map (rowLength ?l1) rs) of None \<Rightarrow> Num 0 | Some m \<Rightarrow> m),
                 height = js_add (js_mul (rowsToDraw oh ?l1 rs) (Num (textHeight ?l1)))
                            (js_mul (Num 2) (Num padding)),
                 wantsWidth = js_lt (Num ow) (js_add (Num padding)
                   (case d3_max (map (rowLength ?l1) rs) of None \<Rightarrow> Num 0 | Some m \<Rightarrow> m)),
                 wantsHeight = js_lt (Num oh)
                   (js_add (js_mul (Num (real (length rs))) (Num (textHeight ?l1)))
                           (js_mul (Num 2) (Num padding))) \<rparr>"
  have r: "requestedSpace measureText ht ow oh l = Inr (req, l')"
    by (simp only: requestedSpace_unfold rs option.case req_def l'_def)
  have th: "textHeight l' = textHeight ?l1" and rows': "rows l' = Some rs"
    and n: "numRowsToDraw l' = rowsToDraw oh ?l1 rs"
    by (simp_all add: l'_def rs)
  have h: "ISpaceRequest.height req =
      js_add (js_mul (numRowsToDraw l') (Num (textHeight l'))) (js_mul (Num 2) (Num padding))"
    by (simp only: req_def n th ISpaceRequest.select_convs)
  have c: "0 < textHeight l' \<longrightarrow>
       numRowsToDraw l' =
         js_min (js_floor (js_div (js_sub (Num oh) (js_mul (Num 2) (Num padding)))
                                  (Num (textHeight l'))))
                (Num (real (length rs))) \<and>
       (2 * padding \<le> oh \<longrightarrow> js_le (Num 0) (numRowsToDraw l'))"
  proof (intro impI conjI)
    assume pos: "0 < textHeight l'"
    then have pos1: "0 < textHeight ?l1" by (simp only: th)
    show "numRowsToDraw l' =
         js_min (js_floor (js_div (js_sub (Num oh) (js_mul (Num 2) (Num padding)))
                                  (Num (textHeight l'))))
                (Num (real (length rs)))"
      by (simp only: n th rowsToDraw_positive[OF pos1])
    assume "2 * padding \<le> oh"
    with pos1 show "js_le (Num 0) (numRowsToDraw l')"
      by (simp only: n rowsToDraw_nonneg)
  qed
  from r rows' h c show ?thesis by blast
qed

text \<open>The doubles of the example below twice the padding.\<close>

lemma short_doubles:
  "rnd (double_0_8 - 10) = Num (- double_9_2)"
  "rnd (- (double_9_2 / double_4_6)) = Num (- 2)"
  "rnd (- (2 * double_4_6)) = Num (- double_9_2)"
  "rnd (10 - double_9_2) = Num double_0_8000000000000007"
  "rnd double_4_6 = Num double_4_6"
  "rnd (double_4_6 + 10) = Num double_14_6"
  unfolding double_0_8_def double_9_2_def double_4_6_def double_0_8000000000000007_def
    double_14_6_def
       apply (rule rnd_eval[where e = 3 and k = "-49"]; simp add: round_half_even_def)
      apply (rule rnd_eval[where e = 1 and k = "-51"]; simp add: round_half_even_def)
     apply (rule rnd_eval[where e = 3 and k = "-49"]; simp add: round_half_even_def)
    apply (rule rnd_eval[where e = "-1" and k = "-53"]; simp add: round_half_even_def)
   apply (rule rnd_eval[where e = 2 and k = "-50"]; simp add: round_half_even_def)
  apply (rule rnd_eval[where e = 3 and k = "-49"]; simp add: round_half_even_def)
  done

lemma short_order:
  "double_0_8 < 10"
  "double_0_8 < double_14_6"
  "double_0_8 < double_0_8000000000000007"
  "double_4_6 \<noteq> 0"
  "0 < double_4_6"
  by (simp_all add: double_0_8_def double_14_6_def double_0_8000000000000007_def double_4_6_def)

lemma requestedSpace_below_padding:
  "requestedSpace (lineMeasurer double_4_6) ''bqpdl'' 25 double_0_8 (HorizontalLegend []) =
     Inr (\<lparr> width = Num 5, height = Num double_0_8000000000000007,
             wantsWidth = False, wantsHeight = True \<rparr>,
          \<lparr> scale_domain = [], textHeight = double_4_6, entryLengths = Map.empty,
            rows = Some [[]], previousOfferedWidth = Some 25, numRowsToDraw = Num (- 2) \<rparr>)"
  by (simp add: requestedSpace_def sizeEntries_def packRows_def packRows_loop_def
      HorizontalLegend_def lineMeasurer_def rowLength_def d3_sum_def js_lt_def Let_def padding_def
      short_doubles short_order)

text \<open>
  Claim C7 (amended). \<open>_requestedSpace\<close> returns a space request (given that the
  cached rows exist if the offered width equals the cached one). When \<open>textHeight\<close>
  is positive, \<open>numRowsToDraw\<close> is the minimum of
  \<open>floor((offeredHeight - 2 * padding) / textHeight)\<close> and the number of rows, and the
  returned height is \<open>numRowsToDraw * textHeight + 2 * padding\<close>, each operation in
  double arithmetic. When \<open>offeredHeight \<ge> 2 * padding\<close>, \<open>numRowsToDraw\<close> is not
  negative. Without that precondition \<open>numRowsToDraw\<close> can be negative and the
  returned height can exceed the offered height: with a text height of 4.6 and an
  offered height of 0.8, \<open>numRowsToDraw\<close> is -2 and the returned height is
  0.8000000000000007.
\<close>

theorem requestedSpace_height:
  "((previousOfferedWidth l = Some ow \<longrightarrow> rows l \<noteq> None) \<longrightarrow>
    (\<exists>req l' rs. requestedSpace measureText ht ow oh l = Inr (req, l') \<and> rows l' = Some rs \<and>
     (0 < textHeight l' \<longrightarrow>
       numRowsToDraw l' =
         js_min (js_floor (js_div (js_sub (Num oh) (js_mul (Num 2) (Num padding)))
                                  (Num (textHeight l'))))
                (Num (real (length rs))) \<and>
       ISpaceRequest.height req =
         js_add (js_mul (numRowsToDraw l') (Num (textHeight l'))) (js_mul (Num 2) (Num padding)) \<and>
       (2 * padding \<le> oh \<longrightarrow> js_le (Num 0) (numRowsToDraw l'))))) \<and>
   requestedSpace (lineMeasurer double_4_6) ''bqpdl'' 25 double_0_8 (HorizontalLegend []) =
     Inr (\<lparr> width = Num 5, height = Num double_0_8000000000000007,
             wantsWidth = False, wantsHeight = True \<rparr>,
          \<lparr> scale_domain = [], textHeight = double_4_6, entryLengths = Map.empty,
            rows = Some [[]], previousOfferedWidth = Some 25, numRowsToDraw = Num (- 2) \<rparr>) \<and>
   0 < double_4_6 \<and> double_0_8 < 2 * padding \<and> double_0_8 < double_0_8000000000000007"
  using requestedSpace_returns[of l ow measureText ht oh] requestedSpace_below_padding short_order
  by (simp only: padding_def) simp

text \<open>
  An instance of C7: two entries in one row, text height 1, offered height 12: one row is
  drawn and the returned height is 11.
\<close>

theorem requestedSpace_height_witness:
  "previousOfferedWidth (HorizontalLegend [''a'', ''b'']) \<noteq> Some 100 \<and>
   (\<exists>req l'. requestedSpace monospace ''bqpdl'' 100 12 (HorizontalLegend [''a'', ''b'']) = Inr (req, l') \<and>
      0 < textHeight l' \<and> 2 * padding \<le> 12 \<and> rows l' = Some [[''a'', ''b'']] \<and>
      numRowsToDraw l' = Num 1 \<and> ISpaceRequest.height req = Num 11 \<and>
      js_le (Num 0) (numRowsToDraw l'))"
proof -
  let ?l = "HorizontalLegend [''a'', ''b'']"
  let ?l1 = "afterSizing monospace ''bqpdl'' 100 ?l"
  have fresh: "previousOfferedWidth ?l \<noteq> Some 100"
    by (simp add: HorizontalLegend_def)
  then have pre: "previousOfferedWidth ?l = Some 100 \<longrightarrow> rows ?l \<noteq> None"
    by simp
  have rows: "rows ?l1 = Some [[''a'', ''b'']]"
    by (simp add: afterSizing_def sizeEntries_def packRows_def packRows_loop_def packRows_body_def
        sizeEntries_body_def js_put_def js_lookup_def js_get_def HorizontalLegend_def monospace_def
        padding_def)
  have th: "textHeight ?l1 = 1"
    by (simp add: afterSizing_def sizeEntries_fields HorizontalLegend_def monospace_def)
  from requestedSpace_height[of ?l 100 monospace "''bqpdl''" 12] pre
  obtain req l' rs where r: "requestedSpace monospace ''bqpdl'' 100 12 ?l = Inr (req, l')"
    and rs: "rows l' = Some rs"
    and concl: "0 < textHeight l' \<longrightarrow>
       numRowsToDraw l' =
         js_min (js_floor (js_div (js_sub (Num 12) (js_mul (Num 2) (Num padding)))
                                  (Num (textHeight l'))))
                (Num (real (length rs))) \<and>
       ISpaceRequest.height req =
         js_add (js_mul (numRowsToDraw l') (Num (textHeight l'))) (js_mul (Num 2) (Num padding)) \<and>
       (2 * padding \<le> 12 \<longrightarrow> js_le (Num 0) (numRowsToDraw l'))"
    by blast
  from r have l': "l' = ?l1\<lparr> numRowsToDraw := rowsToDraw 12 ?l1 [[''a'', ''b'']] \<rparr>"
    by (auto simp add: requestedSpace_unfold rows)
  have th': "textHeight l' = 1" and rows': "rows l' = Some [[''a'', ''b'']]"
    by (simp_all add: l' th rows)
  from rs rows' have rs': "rs = [[''a'', ''b'']]" by simp
  from concl have n: "numRowsToDraw l' = Num 1"
    by (simp add: th' rs' padding_def)
  from concl have "ISpaceRequest.height req = Num 11"
    by (simp add: th' n padding_def)
  with n th' rows' r fresh show ?thesis
    by (simp add: padding_def)
qed

text \<open>The doubles of the second example.\<close>

lemma tall_doubles:
  "rnd double_16_3 = Num double_16_3"
  "rnd (double_16_3 + 5) = Num double_21_3"
  "rnd (double_58_9 - 10) = Num double_48_9"
  "rnd (double_48_9 / double_16_3) = Num 3"
  "rnd (3 * double_16_3) = Num double_48_900000000000006"
  "rnd (double_48_900000000000006 + 10) = Num double_58_900000000000006"
  unfolding double_16_3_def double_21_3_def double_48_9_def double_58_9_def
    double_48_900000000000006_def double_58_900000000000006_def
       apply (rule rnd_eval[where e = 4 and k = "-48"]; simp add: round_half_even_def)
      apply (rule rnd_eval[where e = 4 and k = "-48"]; simp add: round_half_even_def)
     apply (rule rnd_eval[where e = 5 and k = "-47"]; simp add: round_half_even_def)
    apply (rule rnd_eval[where e = 1 and k = "-51"]; simp add: round_half_even_def)
   apply (rule rnd_eval[where e = 5 and k = "-47"]; simp add: round_half_even_def)
  apply (rule rnd_eval[where e = 5 and k = "-47"]; simp add: round_half_even_def)
  done

lemma tall_order:
  "min double_21_3 20 = 20"
  "double_58_9 < double_58_900000000000006"
  "10 \<le> double_58_9"
  "0 < double_16_3"
  "double_16_3 \<noteq> 0"
  by (simp_all add: double_21_3_def double_58_9_def double_58_900000000000006_def double_16_3_def)

text \<open>
  Against C7 as it is worded. Three rows, a text height of 16.3 and an offered height of
  58.9, which is above twice the padding: \<open>(58.9 - 10) / 16.3\<close> rounds to 3, three
  rows are drawn, and the returned height \<open>3 * 16.3 + 10\<close> is 58.900000000000006,
  above the offered height.
\<close>

theorem requestedSpace_rounding_counterexample:
  "requestedSpace (lineMeasurer double_16_3) ''bqpdl'' 25 double_58_9 (HorizontalLegend [''a'', ''b'', ''c'']) =
     Inr (\<lparr> width = Num 25, height = Num double_58_900000000000006,
             wantsWidth = False, wantsHeight = True \<rparr>,
          \<lparr> scale_domain = [''a'', ''b'', ''c''], textHeight = double_16_3,
            entryLengths = [''a'' \<mapsto> Num 20, ''b'' \<mapsto> Num 20, ''c'' \<mapsto> Num 20],
            rows = Some [[''a''], [''b''], [''c'']],
            previousOfferedWidth = Some 25, numRowsToDraw = Num 3 \<rparr>) \<and>
   2 * padding \<le> double_58_9 \<and> 0 < double_16_3 \<and>
   double_58_9 < double_58_900000000000006"
  by (simp add: requestedSpace_def sizeEntries_def sizeEntries_body_def js_put_def packRows_def
      packRows_loop_def packRows_body_def js_lookup_def js_get_def HorizontalLegend_def
      lineMeasurer_def rowLength_def d3_sum_def js_lt_def Let_def padding_def
      tall_doubles tall_order)

lemma sizeEntries_empty:
  "scale_domain l = [] \<Longrightarrow> rows (sizeEntries measureText ht aw l) = Some [[]]"
  by (simp add: sizeEntries_eq rows_packRows packRows_loop_def)

lemma requestedSpace_empty:
  assumes "scale_domain l = []" and "previousOfferedWidth l = Some ow \<longrightarrow> rows l = Some [[]]"
  shows "\<exists>req l'. requestedSpace measureText ht ow oh l = Inr (req, l') \<and>
          rows l' = Some [[]] \<and> ISpaceRequest.width req = Num padding \<and>
          wantsHeight req =
            js_lt (Num oh) (js_add (js_mul (Num 1) (Num (textHeight l'))) (js_mul (Num 2) (Num padding))) \<and>
          textHeight l' = (if previousOfferedWidth l = Some ow then textHeight l
                           else dimensions.height (measureText ht))"
proof -
  let ?l1 = "afterSizing measureText ht ow l"
  have rows: "rows ?l1 = Some [[]]" and th: "textHeight ?l1 =
      (if previousOfferedWidth l = Some ow then textHeight l else dimensions.height (measureText ht))"
    using assms by (auto simp add: afterSizing_def sizeEntries_empty sizeEntries_fields(1))
  have w: "js_add (Num padding) (Num 0) = Num padding"
    by (simp add: padding_def)
  have len: "map (rowLength ?l1) [[]] = [Num 0]"
    by (simp add: rowLength_def d3_sum_def)
  have mx: "d3_max [Num 0] = Some (Num 0)"
    by simp
  have one: "real (length [[]::string list]) = 1"
    by simp
  define l' where "l' = ?l1\<lparr> numRowsToDraw := rowsToDraw oh ?l1 [[]] \<rparr>"
  define req where "req = \<lparr> width = Num padding,
        height = js_add (js_mul (rowsToDraw oh ?l1 [[]]) (Num (textHeight ?l1)))
                   (js_mul (Num 2) (Num padding)),
        wantsWidth = js_lt (Num ow) (Num padding),
        wantsHeight = js_lt (Num oh)
          (js_add (js_mul (Num 1) (Num (textHeight ?l1))) (js_mul (Num 2) (Num padding))) \<rparr>"
  have r: "requestedSpace measureText ht ow oh l = Inr (req, l')"
    by (simp only: requestedSpace_unfold rows option.case len mx w one req_def l'_def)
  have th': "textHeight l' = textHeight ?l1" and rows': "rows l' = Some [[]]"
    by (simp_all add: l'_def rows)
  have "ISpaceRequest.width req = Num padding"
    and "wantsHeight req = js_lt (Num oh)
          (js_add (js_mul (Num 1) (Num (textHeight l'))) (js_mul (Num 2) (Num padding)))"
    by (simp_all only: req_def th' ISpaceRequest.select_convs)
  moreover have "textHeight l' = (if previousOfferedWidth l = Some ow then textHeight l
                           else dimensions.height (measureText ht))"
    by (simp only: th' th)
  ultimately show ?thesis
    using r rows' by blast
qed

text \<open>
  Claim C5. On an empty domain the layout succeeds. \<open>packRows\<close> (alone, and within
  \<open>sizeEntries\<close>) produces exactly one row, which is empty. \<open>_requestedSpace\<close>
  returns a space request and no error, provided the cached rows, if the offered width
  equals the cached one, are those of the empty domain; the requested width is the
  padding, 5, and the desired height, which the request reports through
  \<open>wantsHeight\<close>, is one text row plus twice the padding (\<open>1 * textHeight + 2 *
  padding\<close>, as the source computes it).
\<close>

theorem empty_domain_layout:
  "(scale_domain l = [] \<longrightarrow>
      rows (packRows aw l) = Some [[]] \<and> rows (sizeEntries measureText ht aw l) = Some [[]]) \<and>
   (scale_domain l = [] \<and> (previousOfferedWidth l = Some ow \<longrightarrow> rows l = Some [[]]) \<longrightarrow>
      (\<exists>req l'. requestedSpace measureText ht ow oh l = Inr (req, l') \<and>
          rows l' = Some [[]] \<and> ISpaceRequest.width req = Num padding \<and>
          wantsHeight req =
            js_lt (Num oh) (js_add (js_mul (Num 1) (Num (textHeight l'))) (js_mul (Num 2) (Num padding))) \<and>
          textHeight l' = (if previousOfferedWidth l = Some ow then textHeight l
                           else dimensions.height (measureText ht)))) \<and>
   (\<exists>req l'. requestedSpace measureText ht ow oh (HorizontalLegend []) = Inr (req, l') \<and>
          rows l' = Some [[]] \<and> ISpaceRequest.width req = Num 5 \<and>
          wantsHeight req =
            js_lt (Num oh) (js_add (js_mul (Num 1) (Num (dimensions.height (measureText ht))))
                                   (js_mul (Num 2) (Num 5))))"
proof -
  have a: "scale_domain l = [] \<longrightarrow>
      rows (packRows aw l) = Some [[]] \<and> rows (sizeEntries measureText ht aw l) = Some [[]]"
    by (simp add: sizeEntries_empty rows_packRows packRows_loop_def)
  have b: "scale_domain l = [] \<and> (previousOfferedWidth l = Some ow \<longrightarrow> rows l = Some [[]]) \<longrightarrow>
      (\<exists>req l'. requestedSpace measureText ht ow oh l = Inr (req, l') \<and>
          rows l' = Some [[]] \<and> ISpaceRequest.width req = Num padding \<and>
          wantsHeight req =
            js_lt (Num oh) (js_add (js_mul (Num 1) (Num (textHeight l'))) (js_mul (Num 2) (Num padding))) \<and>
          textHeight l' = (if previousOfferedWidth l = Some ow then textHeight l
                           else dimensions.height (measureText ht)))"
    using requestedSpace_empty by blast
  have h: "scale_domain (HorizontalLegend []) = []"
    "previousOfferedWidth (HorizontalLegend []) = Some ow \<longrightarrow> rows (HorizontalLegend []) = Some [[]]"
    by (simp_all add: HorizontalLegend_def)
  have p: "previousOfferedWidth (HorizontalLegend []) \<noteq> Some ow"
    by (simp add: HorizontalLegend_def)
  from requestedSpace_empty[OF h, of measureText ht oh]
  obtain req l' where r: "requestedSpace measureText ht ow oh (HorizontalLegend []) = Inr (req, l')"
    and rows: "rows l' = Some [[]]" and w: "ISpaceRequest.width req = Num padding"
    and wh: "wantsHeight req =
            js_lt (Num oh) (js_add (js_mul (Num 1) (Num (textHeight l'))) (js_mul (Num 2) (Num padding)))"
    and th: "textHeight l' = (if previousOfferedWidth (HorizontalLegend []) = Some ow
                              then textHeight (HorizontalLegend [])
                              else dimensions.height (measureText ht))"
    by blast
  from th p have th': "textHeight l' = dimensions.height (measureText ht)" by simp
  have c: "\<exists>req l'. requestedSpace measureText ht ow oh (HorizontalLegend []) = Inr (req, l') \<and>
          rows l' = Some [[]] \<and> ISpaceRequest.width req = Num 5 \<and>
          wantsHeight req =
            js_lt (Num oh) (js_add (js_mul (Num 1) (Num (dimensions.height (measureText ht))))
                                   (js_mul (Num 2) (Num 5)))"
    using r rows w wh by (simp only: th' padding_def) blast
  from a b c show ?thesis by blast
qed

text \<open>
  An instance of C5: a legend whose scale lost its only entry, after the update of the
  domain has invalidated the layout.
\<close>

theorem empty_domain_layout_witness:
  "scale_domain (updateDomain ((HorizontalLegend [''a''])\<lparr>scale_domain := []\<rparr>)) = [] \<and>
   previousOfferedWidth (updateDomain ((HorizontalLegend [''a''])\<lparr>scale_domain := []\<rparr>)) \<noteq> Some 100 \<and>
   rows (packRows (Num 95) (updateDomain ((HorizontalLegend [''a''])\<lparr>scale_domain := []\<rparr>))) = Some [[]] \<and>
   (\<exists>req l'. requestedSpace monospace ''bqpdl'' 100 50
                (updateDomain ((HorizontalLegend [''a''])\<lparr>scale_domain := []\<rparr>)) = Inr (req, l') \<and>
          rows l' = Some [[]] \<and> ISpaceRequest.width req = Num 5 \<and> wantsHeight req = False)"
proof -
  let ?l = "updateDomain ((HorizontalLegend [''a''])\<lparr>scale_domain := []\<rparr>)"
  have h: "scale_domain ?l = []" "previousOfferedWidth ?l \<noteq> Some 100"
    by (simp_all add: updateDomain_def invalidateLayout_def HorizontalLegend_def)
  from empty_domain_layout[of ?l "Num 95" monospace "''bqpdl''" 100 50] h
  show ?thesis
    by (auto simp add: monospace_def padding_def js_lt_def)
qed

section \<open>Properties of DataSource\<close>

text \<open>
  Claim C3. \<open>data(d)\<close> with a \<open>d\<close> that is not null stores \<open>d\<close>, calls
  \<open>_broadcast\<close> exactly once (the log of notifications grows by one entry, the
  registered listeners) and returns the DataSource itself, leaving metadata and listeners
  as they were; \<open>metadata(m)\<close> does the same for the metadata; and \<open>data()\<close> and
  \<open>metadata()\<close> without an argument return the stored value and change nothing.
\<close>

theorem dataSource_notifies_on_mutation:
  "data (Val d) s = (This, broadcast (s\<lparr> data_field := Val d \<rparr>)) \<and>
   data_field (snd (data (Val d) s)) = Val d \<and>
   metadata_field (snd (data (Val d) s)) = metadata_field s \<and>
   listeners (snd (data (Val d) s)) = listeners s \<and>
   notified (snd (data (Val d) s)) = notified s @ [listeners s] \<and>
   metadata (Val m) s = (This, broadcast (s\<lparr> metadata_field := Val m \<rparr>)) \<and>
   metadata_field (snd (metadata (Val m) s)) = Val m \<and>
   data_field (snd (metadata (Val m) s)) = data_field s \<and>
   listeners (snd (metadata (Val m) s)) = listeners s \<and>
   notified (snd (metadata (Val m) s)) = notified s @ [listeners s] \<and>
   data Undefined s = (Value (data_field s), s) \<and>
   metadata Undefined s = (Value (metadata_field s), s)"
  by (simp add: data_def metadata_def broadcast_def)

text \<open>An instance of C3, with one registered listener.\<close>

theorem dataSource_notifies_on_mutation_example:
  "data (Val [3, 4]) (registerListener ''plot'' (DataSource (Val [1, 2 :: nat]) Undefined
       :: (string, nat, nat) dataSource)) =
     (This, \<lparr> listeners = [''plot''], notified = [[''plot'']],
              data_field = Val [3, 4], metadata_field = Val Map.empty \<rparr>)"
  using dataSource_notifies_on_mutation[of "[3, 4]"
      "registerListener ''plot'' (DataSource (Val [1, 2 :: nat]) Undefined :: (string, nat, nat) dataSource)"]
  by (simp add: registerListener_def DataSource_def broadcast_def)

text \<open>
  Claim C9. An argument that is \<open>null\<close> or \<open>undefined\<close> makes \<open>data\<close> and
  \<open>metadata\<close> getters: the stored value is returned and the state (data, metadata,
  listeners, log of notifications) is unchanged. Hence the methods cannot store null:
  if the stored data (metadata) is null after a call, it is the value that was stored
  before the call. Neither method touches the other's field.
\<close>

theorem dataSource_null_is_getter:
  "(eq_null a \<longrightarrow> data a s = (Value (data_field s), s)) \<and>
   (eq_null b \<longrightarrow> metadata b s = (Value (metadata_field s), s)) \<and>
   (eq_null (data_field (snd (data a s))) \<longrightarrow> data_field (snd (data a s)) = data_field s) \<and>
   (eq_null (metadata_field (snd (metadata b s))) \<longrightarrow>
      metadata_field (snd (metadata b s)) = metadata_field s) \<and>
   metadata_field (snd (data a s)) = metadata_field s \<and>
   data_field (snd (metadata b s)) = data_field s"
  by (simp add: data_def metadata_def broadcast_def Let_def)

text \<open>An instance of C9: \<open>data(null)\<close> and \<open>metadata(undefined)\<close>.\<close>

theorem dataSource_null_is_getter_witness:
  "eq_null (Null :: nat list js) \<and> eq_null (Undefined :: (string \<rightharpoonup> nat) js) \<and>
   data Null (registerListener ''plot'' (DataSource (Val [1, 2 :: nat]) Undefined
       :: (string, nat, nat) dataSource)) =
     (Value (Val [1, 2]), \<lparr> listeners = [''plot''], notified = [],
              data_field = Val [1, 2], metadata_field = Val Map.empty \<rparr>) \<and>
   metadata Undefined (registerListener ''plot'' (DataSource (Val [1, 2 :: nat]) Undefined
       :: (string, nat, nat) dataSource)) =
     (Value (Val Map.empty), \<lparr> listeners = [''plot''], notified = [],
              data_field = Val [1, 2], metadata_field = Val Map.empty \<rparr>)"
  using dataSource_null_is_getter[of Null
      "registerListener ''plot'' (DataSource (Val [1, 2 :: nat]) Undefined :: (string, nat, nat) dataSource)"
      Undefined]
  by (simp add: registerListener_def DataSource_def)

section \<open>Properties of XDragBoxLayer\<close>

text \<open>
  Claim C4. After the bounds are set, and after any resize or move gesture, the box
  starts at y = 0 and ends at y = the height of the component. Setting bounds keeps the x
  of both corners; a resize puts the x of the dragged edge at the x of the drag's end
  point and keeps the other edge; a move shifts the x of both edges by the x distance of
  the drag; no gesture changes the height of the component.
\<close>

theorem xDragBoxLayer_x_only:
  "py (topLeft (getBounds (setBounds b l))) = 0 \<and>
   py (bottomRight (getBounds (setBounds b l))) = layer_height (setBounds b l) \<and>
   px (topLeft (getBounds (setBounds b l))) = px (topLeft b) \<and>
   px (bottomRight (getBounds (setBounds b l))) = px (bottomRight b) \<and>
   py (topLeft (getBounds (dragSequence g l))) = 0 \<and>
   py (bottomRight (getBounds (dragSequence g l))) = layer_height (dragSequence g l) \<and>
   layer_height (dragSequence g l) = layer_height l \<and>
   px (bottomRight (getBounds (dragSequence (Resize RightEdge p) l))) = px p \<and>
   px (topLeft (getBounds (dragSequence (Resize RightEdge p) l))) = px (topLeft (getBounds l)) \<and>
   px (topLeft (getBounds (dragSequence (Resize LeftEdge p) l))) = px p \<and>
   px (bottomRight (getBounds (dragSequence (Resize LeftEdge p) l))) = px (bottomRight (getBounds l)) \<and>
   px (topLeft (getBounds (dragSequence (Move p q) l))) = px (topLeft (getBounds l)) + (px q - px p) \<and>
   px (bottomRight (getBounds (dragSequence (Move p q) l))) =
     px (bottomRight (getBounds l)) + (px q - px p)"
proof -
  have "py (topLeft (getBounds (dragSequence g l))) = 0 \<and>
        py (bottomRight (getBounds (dragSequence g l))) = layer_height (dragSequence g l) \<and>
        layer_height (dragSequence g l) = layer_height l"
    by (cases "(g, l)" rule: dragSequence.cases) (simp_all add: setBounds_def getBounds_def)
  then show ?thesis
    by (simp add: setBounds_def getBounds_def)
qed

text \<open>
  The four tests of the layer, on a component of 400 by 400: \<open>bounds()\<close>, "resizes
  only in x", "stays full height after resizing" (the component grows to a height of
  800) and "moves only in x".
\<close>

lemma xDragBoxLayer_tests:
  "(let l0 = \<lparr> layer_height = 400, box = \<lparr> topLeft = \<lparr> px = 0, py = 0 \<rparr>,
                                              bottomRight = \<lparr> px = 0, py = 0 \<rparr> \<rparr> \<rparr>;
        quarterToHalf = \<lparr> topLeft = \<lparr> px = 100, py = 100 \<rparr>,
                          bottomRight = \<lparr> px = 200, py = 200 \<rparr> \<rparr>;
        quarterToThreeQuarters = \<lparr> topLeft = \<lparr> px = 100, py = 100 \<rparr>,
                                   bottomRight = \<lparr> px = 300, py = 300 \<rparr> \<rparr>
    in getBounds (setBounds quarterToHalf l0) =
         \<lparr> topLeft = \<lparr> px = 100, py = 0 \<rparr>, bottomRight = \<lparr> px = 200, py = 400 \<rparr> \<rparr> \<and>
       getBounds (dragSequence (Resize RightEdge \<lparr> px = 300, py = 200 \<rparr>)
                    (setBounds quarterToHalf l0)) =
         \<lparr> topLeft = \<lparr> px = 100, py = 0 \<rparr>, bottomRight = \<lparr> px = 300, py = 400 \<rparr> \<rparr> \<and>
       getBounds (computeLayout 800 (setBounds quarterToHalf l0)) =
         \<lparr> topLeft = \<lparr> px = 100, py = 0 \<rparr>, bottomRight = \<lparr> px = 200, py = 800 \<rparr> \<rparr> \<and>
       getBounds (dragSequence (Move \<lparr> px = 200, py = 200 \<rparr> \<lparr> px = 210, py = 210 \<rparr>)
                    (setBounds quarterToThreeQuarters l0)) =
         \<lparr> topLeft = \<lparr> px = 110, py = 0 \<rparr>, bottomRight = \<lparr> px = 310, py = 400 \<rparr> \<rparr>)"
  by (simp add: setBounds_def getBounds_def computeLayout_def Let_def)

end
